theory Spec2Isabelle
  imports Complex_Main "HOL-Library.Log_Nat"
begin

section \<open>Shared data model\<close>

text \<open>
  The commission engine of the repository, embedded function by function.
  A JavaScript number is modelled by its value, a rational: every finite double is one, so
  comparisons are exact. NaN, the infinities, overflow and subnormal numbers are not
  represented. Where a result that is reported or compared depends on the rounding of IEEE 754
  double arithmetic (the leg score of the placement descent, the share of the passive pool,
  the sums of \<open>processCommissionTransaction\<close>) every operation is the exact one followed
  by \<open>fl\<close>, the rounding to the nearest double, and a decimal literal is \<open>fl\<close> of its
  value. The monoline sale calculation, the scores of the exhaustive placement search and the
  classic percentage engine are written with the exact operations.
  An optional property (\<open>sponsorId?: string\<close>) is an \<open>option\<close>; a thrown \<open>Error\<close> is the
  constructor \<open>Thrown\<close> of \<open>outcome\<close>. Identifiers made from the clock and the random
  generator (\<open>id\<close>, \<open>saleId\<close>) and timestamps are left out of the records.
\<close>

type_synonym number = rat

text \<open>
  Rounding to the nearest double. \<open>pow2 e\<close> is the power of two with the integer
  exponent \<open>e\<close>, and \<open>binade x\<close> is the exponent \<open>e\<close> with
  \<open>pow2 e \<le> x < pow2 (e + 1)\<close> of a positive \<open>x\<close>. A double in that range is a
  multiple of \<open>pow2 (e - 52)\<close> (53 significant bits), and \<open>fl x\<close> is the multiple nearest
  to \<open>x\<close>, the one with the even significand when \<open>x\<close> lies half way between two.
\<close>

definition pow2 :: "int \<Rightarrow> rat" where
  "pow2 e = (if 0 \<le> e then 2 ^ nat e else 1 / 2 ^ nat (- e))"

definition binade :: "rat \<Rightarrow> int" where
  "binade x =
     (if 1 \<le> x then int (floorlog 2 (nat \<lfloor>x\<rfloor>)) - 1
      else (let b = int (floorlog 2 (nat \<lfloor>1 / x\<rfloor>))
            in if pow2 (1 - b) \<le> x then 1 - b else - b))"

definition roundHalfEven :: "rat \<Rightarrow> int" where
  "roundHalfEven y =
     (let f = \<lfloor>y\<rfloor>; r = y - of_int f
      in if r < 1 / 2 then f else if 1 / 2 < r then f + 1
         else if even f then f else f + 1)"

definition fl :: "rat \<Rightarrow> number" where
  "fl x =
     (if x = 0 then 0
      else (let ulp = pow2 (binade \<bar>x\<bar> - 52)
            in sgn x * of_int (roundHalfEven (\<bar>x\<bar> / ulp)) * ulp))"

text \<open>The operations \<open>+\<close>, \<open>*\<close> and \<open>/\<close> on doubles.\<close>

definition fadd :: "number \<Rightarrow> number \<Rightarrow> number" where
  "fadd a b = fl (a + b)"

definition fmul :: "number \<Rightarrow> number \<Rightarrow> number" where
  "fmul a b = fl (a * b)"

definition fdiv :: "number \<Rightarrow> number \<Rightarrow> number" where
  "fdiv a b = fl (a / b)"

datatype 'a outcome = Returned 'a | Thrown string

record wallet =
  balance :: number
  totalEarnings :: number
  sponsorBonus :: number
  careerBonus :: number
  passiveIncome :: number
  leadershipBonus :: number

record careerLevel =
  cl_name :: string
  cl_level :: number
  cl_commissionRate :: number
  cl_passiveIncomeRate :: number

record user =
  u_id :: string
  u_memberId :: string
  u_fullName :: string
  u_email :: string
  u_sponsorId :: "string option"
  u_leftChild :: "string option"
  u_rightChild :: "string option"
  u_isActive :: bool
  u_careerLevel :: careerLevel
  u_totalInvestment :: number
  u_wallet :: wallet
  u_monthlySalesVolume :: "number option"
  u_annualSalesVolume :: "number option"

text \<open>Truthiness of an optional string: \<open>undefined\<close> and the empty string are falsy.\<close>

definition truthy_str :: "string option \<Rightarrow> bool" where
  "truthy_str s = (case s of None \<Rightarrow> False | Some x \<Rightarrow> x \<noteq> [])"

text \<open>\<open>a || b\<close> on optional numbers: \<open>undefined\<close> and \<open>0\<close> are falsy.\<close>

definition truthy_num :: "number option \<Rightarrow> bool" where
  "truthy_num a = (case a of None \<Rightarrow> False | Some x \<Rightarrow> x \<noteq> 0)"

definition or_num :: "number option \<Rightarrow> number option \<Rightarrow> number option" where
  "or_num a b = (if truthy_num a then a else b)"

definition or_zero :: "number option \<Rightarrow> number" where
  "or_zero a = (case a of None \<Rightarrow> 0 | Some x \<Rightarrow> (if x \<noteq> 0 then x else 0))"

text \<open>\<open>allUsers.find(u => u.id === id)\<close>: the first user with that id.\<close>

definition find_user :: "user list \<Rightarrow> string \<Rightarrow> user option" where
  "find_user allUsers i = find (\<lambda>u. u_id u = i) allUsers"

section \<open>Monoline commission service\<close>

record bonus =
  percentage :: number
  amount :: number

record depthCommissions =
  level1 :: bonus
  level2 :: bonus
  level3 :: bonus
  level4 :: bonus
  level5 :: bonus
  level6 :: bonus
  level7 :: bonus
  totalPercentage :: number
  totalAmount :: number

record monolineCommissionStructure =
  productPrice :: number
  directSponsorBonus :: bonus
  depthCommissions :: depthCommissions
  passiveIncomePool :: bonus
  companyFund :: bonus

definition mk_bonus :: "number \<Rightarrow> number \<Rightarrow> bonus" where
  "mk_bonus p a = \<lparr>percentage = p, amount = a\<rparr>"

definition getDefaultCommissionStructure :: monolineCommissionStructure where
  "getDefaultCommissionStructure =
     \<lparr>productPrice = 20,
      directSponsorBonus = mk_bonus 15 3,
      depthCommissions =
        \<lparr>level1 = mk_bonus (25 / 2) (5 / 2),
         level2 = mk_bonus (15 / 2) (3 / 2),
         level3 = mk_bonus 5 1,
         level4 = mk_bonus (7 / 2) (7 / 10),
         level5 = mk_bonus (5 / 2) (1 / 2),
         level6 = mk_bonus 2 (2 / 5),
         level7 = mk_bonus (3 / 2) (3 / 10),
         totalPercentage = 79 / 2,
         totalAmount = 79 / 10\<rparr>,
      passiveIncomePool = mk_bonus (1 / 2) (1 / 10),
      companyFund = mk_bonus 45 9\<rparr>"

record membershipRequirements =
  initialPurchase_minimumAmount :: number
  monthlyActivity_minimumAmount :: number
  annualActivity_minimumAmount :: number

definition getMembershipRequirements :: membershipRequirements where
  "getMembershipRequirements =
     \<lparr>initialPurchase_minimumAmount = 100,
      monthlyActivity_minimumAmount = 20,
      annualActivity_minimumAmount = 200\<rparr>"

record salesData =
  monthlySales :: number
  annualSales :: number

record activity =
  isMonthlyActive :: bool
  isAnnuallyActive :: bool
  isFullyActive :: bool
  hasInitialPurchase :: bool

text \<open>
  The three figures \<open>checkUserActivity\<close> compares: \<open>salesData?.monthlySales ||
  user.monthlySalesVolume || 0\<close>, the same for the annual figure, and
  \<open>user.totalInvestment || 0\<close>.
\<close>

definition monthly_figure :: "user \<Rightarrow> salesData option \<Rightarrow> number" where
  "monthly_figure u sd =
     or_zero (or_num (map_option monthlySales sd) (u_monthlySalesVolume u))"

definition annual_figure :: "user \<Rightarrow> salesData option \<Rightarrow> number" where
  "annual_figure u sd =
     or_zero (or_num (map_option annualSales sd) (u_annualSalesVolume u))"

definition initial_figure :: "user \<Rightarrow> number" where
  "initial_figure u = or_zero (Some (u_totalInvestment u))"

text \<open>
  \<open>checkUserActivity\<close> takes the member and the optional sales data; its thresholds are
  those \<open>getMembershipRequirements()\<close> returns.
\<close>

definition checkUserActivity :: "user \<Rightarrow> salesData option \<Rightarrow> activity" where
  "checkUserActivity u sd =
     (let requirements = getMembershipRequirements;
          monthly = monthly_figure u sd;
          annual = annual_figure u sd;
          initial = initial_figure u;
          m = (monthly \<ge> monthlyActivity_minimumAmount requirements);
          a = (annual \<ge> annualActivity_minimumAmount requirements);
          h = (initial \<ge> initialPurchase_minimumAmount requirements)
      in \<lparr>isMonthlyActive = m, isAnnuallyActive = a,
          isFullyActive = (m \<and> a \<and> h), hasInitialPurchase = h\<rparr>)"

datatype commissionType = direct_sponsor | depth_level nat | passive_income | company_fund

datatype txStatus = pending | processed | failed

record monolineCommissionTransaction =
  t_buyerId :: string
  t_productPrice :: number
  t_commissionType :: commissionType
  t_recipientId :: string
  t_level :: "nat option"
  t_percentage :: number
  t_amount :: number
  t_status :: txStatus

record monolineResult =
  transactions :: "monolineCommissionTransaction list"
  passivePoolAmount :: number
  companyFundAmount :: number
  totalDistributed :: number
  inactiveCommissionsToCompany :: number

text \<open>\<open>getUplineChain\<close>: the loop runs at most \<open>maxLevels\<close> times and stops at a user
  without sponsor id or whose sponsor is not in the snapshot.\<close>

fun getUplineChain :: "user \<Rightarrow> user list \<Rightarrow> nat \<Rightarrow> user list" where
  "getUplineChain currentUser allUsers 0 = []"
| "getUplineChain currentUser allUsers (Suc n) =
     (if \<not> truthy_str (u_sponsorId currentUser) then []
      else case find_user allUsers (the (u_sponsorId currentUser)) of
             None \<Rightarrow> []
           | Some sponsor \<Rightarrow> sponsor # getUplineChain sponsor allUsers n)"

definition depthLevels :: "monolineCommissionStructure \<Rightarrow> (nat \<times> bonus) list" where
  "depthLevels s =
     [(1, level1 (depthCommissions s)), (2, level2 (depthCommissions s)),
      (3, level3 (depthCommissions s)), (4, level4 (depthCommissions s)),
      (5, level5 (depthCommissions s)), (6, level6 (depthCommissions s)),
      (7, level7 (depthCommissions s))]"

text \<open>
  The \<open>forEach\<close> over the upline chain, from position \<open>index\<close> on: the state is the list
  of transactions pushed so far and \<open>inactiveCommissionsToCompany\<close>.
\<close>

fun upline_forEach ::
  "string \<Rightarrow> number \<Rightarrow> (nat \<times> bonus) list \<Rightarrow> user list \<Rightarrow> nat \<Rightarrow>
   monolineCommissionTransaction list \<times> number \<Rightarrow>
   monolineCommissionTransaction list \<times> number" where
  "upline_forEach buyerId price lv [] index acc = acc"
| "upline_forEach buyerId price lv (uplineUser # rest) index (txs, inactive) =
     upline_forEach buyerId price lv rest (Suc index)
       (if index < length lv then
          (let levelBonus = lv ! index;
               activityCheck = checkUserActivity uplineUser None
           in if isFullyActive activityCheck then
                (txs @ [\<lparr>t_buyerId = buyerId, t_productPrice = price,
                          t_commissionType = depth_level (fst levelBonus),
                          t_recipientId = u_id uplineUser,
                          t_level = Some (fst levelBonus),
                          t_percentage = percentage (snd levelBonus),
                          t_amount = amount (snd levelBonus),
                          t_status = pending\<rparr>], inactive)
              else (txs, inactive + amount (snd levelBonus)))
        else (txs, inactive))"

definition direct_sponsor_txs ::
  "string \<Rightarrow> number \<Rightarrow> monolineCommissionStructure \<Rightarrow> user \<Rightarrow> user list \<Rightarrow>
   monolineCommissionTransaction list" where
  "direct_sponsor_txs buyerId price structure buyer allUsers =
     (if truthy_str (u_sponsorId buyer) then
        (case find_user allUsers (the (u_sponsorId buyer)) of
           None \<Rightarrow> []
         | Some sponsor \<Rightarrow>
             [\<lparr>t_buyerId = buyerId, t_productPrice = price,
               t_commissionType = direct_sponsor,
               t_recipientId = u_id sponsor,
               t_level = None,
               t_percentage = percentage (directSponsorBonus structure),
               t_amount = amount (directSponsorBonus structure),
               t_status = pending\<rparr>])
      else [])"

definition calculateMonolineCommissions ::
  "string \<Rightarrow> number \<Rightarrow> user list \<Rightarrow> monolineCommissionStructure option \<Rightarrow>
   monolineResult outcome" where
  "calculateMonolineCommissions buyerId price allUsers commissionStructure =
     (let structure = (case commissionStructure of
                         None \<Rightarrow> getDefaultCommissionStructure | Some s \<Rightarrow> s)
      in case find_user allUsers buyerId of
           None \<Rightarrow> Thrown ''Buyer not found''
         | Some buyer \<Rightarrow>
             (let txs0 = direct_sponsor_txs buyerId price structure buyer allUsers;
                  uplineChain = getUplineChain buyer allUsers 7;
                  (txs, inactive) =
                     upline_forEach buyerId price (depthLevels structure) uplineChain 0
                       (txs0, 0);
                  passivePool = amount (passiveIncomePool structure);
                  companyFundAmt = amount (companyFund structure) + inactive;
                  total = foldl (\<lambda>sum t. sum + t_amount t) 0 txs
              in Returned \<lparr>transactions = txs,
                           passivePoolAmount = passivePool,
                           companyFundAmount = companyFundAmt,
                           totalDistributed = total,
                           inactiveCommissionsToCompany = inactive\<rparr>))"

text \<open>The quantity of the exact-sum property: what the result accounts for.\<close>

definition accounted :: "monolineResult \<Rightarrow> number" where
  "accounted r =
     sum_list (map t_amount (transactions r)) + passivePoolAmount r + companyFundAmount r"

record recipient =
  r_userId :: string
  r_memberId :: string
  r_amount :: number
  r_status :: txStatus

record passiveIncomeDistribution =
  totalPool :: number
  activeMembers :: nat
  amountPerMember :: number
  recipients :: "recipient list"

text \<open>The share is the quotient of two doubles, rounded: \<open>totalPoolAmount / activeMembers\<close>.\<close>

definition calculatePassiveIncomeDistribution ::
  "number \<Rightarrow> user list \<Rightarrow> passiveIncomeDistribution" where
  "calculatePassiveIncomeDistribution totalPoolAmount allUsers =
     (let activeUsers = filter (\<lambda>u. isFullyActive (checkUserActivity u None)) allUsers;
          n = length activeUsers;
          per = (if n > 0 then fdiv totalPoolAmount (of_nat n) else 0)
      in \<lparr>totalPool = totalPoolAmount,
          activeMembers = n,
          amountPerMember = per,
          recipients = map (\<lambda>u. \<lparr>r_userId = u_id u, r_memberId = u_memberId u,
                                   r_amount = per, r_status = pending\<rparr>) activeUsers\<rparr>)"

text \<open>\<open>processCommissionTransaction\<close>: a new user value with the amount added to the
  wallet, each sum a double addition; \<open>startsWith('depth_level')\<close> holds for the seven
  depth types only.\<close>

definition processCommissionTransaction ::
  "monolineCommissionTransaction \<Rightarrow> user \<Rightarrow> user" where
  "processCommissionTransaction t r =
     r\<lparr>u_wallet := (u_wallet r)
         \<lparr>balance := fadd (balance (u_wallet r)) (t_amount t),
          totalEarnings := fadd (totalEarnings (u_wallet r)) (t_amount t),
          sponsorBonus := (if t_commissionType t = direct_sponsor
                           then fadd (sponsorBonus (u_wallet r)) (t_amount t)
                           else sponsorBonus (u_wallet r)),
          careerBonus := (case t_commissionType t of
                            depth_level n \<Rightarrow> fadd (careerBonus (u_wallet r)) (t_amount t)
                          | _ \<Rightarrow> careerBonus (u_wallet r)),
          passiveIncome := (if t_commissionType t = passive_income
                            then fadd (passiveIncome (u_wallet r)) (t_amount t)
                            else passiveIncome (u_wallet r))\<rparr>\<rparr>"

section \<open>Member store and binary placement\<close>

text \<open>
  The member store is the array \<open>db.data.users\<close>. \<open>getUserById\<close> and \<open>getUserByEmail\<close>
  return the first member with the id or the e-mail; \<open>updateUser\<close> replaces the first member
  with the id by the merged record and does nothing when there is none.
\<close>

type_synonym store = "user list"

definition getUserById :: "store \<Rightarrow> string \<Rightarrow> user option" where
  "getUserById st i = find (\<lambda>u. u_id u = i) st"

definition getUserByEmail :: "store \<Rightarrow> string \<Rightarrow> user option" where
  "getUserByEmail st e = find (\<lambda>u. u_email u = e) st"

fun updateUser :: "store \<Rightarrow> string \<Rightarrow> (user \<Rightarrow> user) \<Rightarrow> store" where
  "updateUser [] i f = []"
| "updateUser (u # us) i f = (if u_id u = i then f u # us else u # updateUser us i f)"

definition admin_email :: string where
  "admin_email = ''psikologabdulkadirkan@gmail.com''"

datatype side = left | right

datatype algorithm = size_based | volume_based | balanced | depth_first

text \<open>
  The statistics of a leg come from the statistics engine (\<open>getTotalTeamSize\<close>,
  \<open>getTeamVolume\<close>, \<open>calculateAdvancedLegStats\<close>), whose answers depend on two caches
  and on the clock. The placement functions are modelled over whatever the engine answers:
  it is a parameter, a function from member ids to figures.
\<close>

record legStats =
  ls_teamSize :: number
  ls_volume :: number
  ls_activeMembers :: number
  ls_maxDepth :: number
  ls_avgInvestment :: number

text \<open>
  \<open>calculateLegScore\<close> in double arithmetic: four quotients, four products and the three
  sums from left to right, each rounded; the weights are the doubles nearest to 0.4, 0.3, 0.2
  and 0.1.
\<close>

definition calculateLegScore :: "legStats \<Rightarrow> number" where
  "calculateLegScore stats =
     (let sizeWeight = fl (4 / 10); volumeWeight = fl (3 / 10); activeWeight = fl (2 / 10);
          depthWeight = fl (1 / 10);
          normalizedSize = fdiv (ls_teamSize stats) 100;
          normalizedVolume = fdiv (ls_volume stats) 10000;
          normalizedActive = fdiv (ls_activeMembers stats) 100;
          normalizedDepth = fdiv (ls_maxDepth stats) 10
      in fadd (fadd (fadd (fmul normalizedSize sizeWeight) (fmul normalizedVolume volumeWeight))
                 (fmul normalizedActive activeWeight))
           (fmul normalizedDepth depthWeight))"

text \<open>The \<open>switch (algorithm)\<close> of \<open>findWeakestLeg\<close>: the score of one leg.\<close>

definition legScoreFor :: "algorithm \<Rightarrow> legStats \<Rightarrow> number" where
  "legScoreFor alg stats =
     (case alg of
        size_based \<Rightarrow> ls_teamSize stats
      | volume_based \<Rightarrow> ls_volume stats
      | depth_first \<Rightarrow> ls_maxDepth stats
      | balanced \<Rightarrow> calculateLegScore stats)"

record candidate =
  c_parentId :: string
  c_position :: side
  c_depth :: nat

record weakestLeg = candidate +
  c_score :: number

text \<open>The child a slot resolves to: \<open>user.leftChild ? await getUserById(user.leftChild) : null\<close>.\<close>

definition resolveChild :: "store \<Rightarrow> string option \<Rightarrow> user option" where
  "resolveChild st c = (if truthy_str c then getUserById st (the c) else None)"

definition deeper :: "weakestLeg option \<Rightarrow> weakestLeg option" where
  "deeper result = map_option (\<lambda>r. r\<lparr>c_depth := c_depth r + 1\<rparr>) result"

text \<open>
  \<open>findWeakestLeg\<close> follows child ids, which may form a cycle, so the recursion is given
  fuel: \<open>None\<close> is "no answer within that many calls", \<open>Some None\<close> is the answer
  \<open>null\<close>, \<open>Some (Some p)\<close> a placement.
\<close>

fun findWeakestLeg ::
  "nat \<Rightarrow> (string \<Rightarrow> legStats) \<Rightarrow> store \<Rightarrow> string \<Rightarrow> algorithm \<Rightarrow> weakestLeg option option" where
  "findWeakestLeg 0 getDetailedLegStats st userId alg = None"
| "findWeakestLeg (Suc fuel) getDetailedLegStats st userId alg =
     (case getUserById st userId of
        None \<Rightarrow> Some None
      | Some u \<Rightarrow>
          (case (resolveChild st (u_leftChild u), resolveChild st (u_rightChild u)) of
             (None, None) \<Rightarrow>
               Some (Some \<lparr>c_parentId = userId, c_position = left, c_depth = 1, c_score = 0\<rparr>)
           | (None, Some r) \<Rightarrow>
               Some (Some \<lparr>c_parentId = userId, c_position = left, c_depth = 1, c_score = 0\<rparr>)
           | (Some l, None) \<Rightarrow>
               Some (Some \<lparr>c_parentId = userId, c_position = right, c_depth = 1, c_score = 0\<rparr>)
           | (Some l, Some r) \<Rightarrow>
               (let leftScore = legScoreFor alg (getDetailedLegStats (u_id l));
                    rightScore = legScoreFor alg (getDetailedLegStats (u_id r))
                in if leftScore \<le> rightScore
                   then map_option deeper (findWeakestLeg fuel getDetailedLegStats st (u_id l) alg)
                   else map_option deeper (findWeakestLeg fuel getDetailedLegStats st (u_id r) alg))))"

text \<open>
  \<open>findAvailablePositions\<close>: depths are natural numbers. The recursion stops when
  \<open>currentDepth\<close> exceeds \<open>maxDepth\<close>, which is its termination argument.
\<close>

function findAvailablePositions :: "store \<Rightarrow> string \<Rightarrow> nat \<Rightarrow> nat \<Rightarrow> candidate list" where
  "findAvailablePositions st startUserId maxDepth currentDepth =
     (if currentDepth > maxDepth then []
      else case getUserById st startUserId of
             None \<Rightarrow> []
           | Some u \<Rightarrow>
               (if \<not> truthy_str (u_leftChild u)
                then [\<lparr>c_parentId = startUserId, c_position = left, c_depth = currentDepth\<rparr>]
                else findAvailablePositions st (the (u_leftChild u)) maxDepth (currentDepth + 1))
               @ (if \<not> truthy_str (u_rightChild u)
                  then [\<lparr>c_parentId = startUserId, c_position = right, c_depth = currentDepth\<rparr>]
                  else findAvailablePositions st (the (u_rightChild u)) maxDepth
                         (currentDepth + 1)))"
  by pat_completeness auto
termination
  by (relation "measure (\<lambda>(st, s, maxDepth, currentDepth). Suc maxDepth - currentDepth)") auto

declare findAvailablePositions.simps [simp del]

text \<open>
  The scores of \<open>scorePlacementPosition\<close>; \<open>Infinity\<close> is its answer for a parent that is
  not in the store. The three engine functions are parameters, as above.
\<close>

datatype xnumber = Fin number | Infinity

record statsEngine =
  getTotalTeamSize :: "string \<Rightarrow> number"
  getTeamVolume :: "string \<Rightarrow> number"
  calculateMaxDepth :: "string \<Rightarrow> number"

datatype preferredSide = preferred side | auto_side

record preferences =
  pr_algorithm :: "algorithm option"
  pr_maxDepth :: "nat option"
  pr_preferredSide :: "preferredSide option"
  pr_considerCareerLevel :: bool
  pr_avoidOverloading :: bool

definition otherSide :: "user \<Rightarrow> side \<Rightarrow> string option" where
  "otherSide parent position = (if position = left then u_rightChild parent else u_leftChild parent)"

definition scoreByTeamSize :: "statsEngine \<Rightarrow> store \<Rightarrow> string \<Rightarrow> side \<Rightarrow> number" where
  "scoreByTeamSize eng st parentId position =
     (case getUserById st parentId of
        None \<Rightarrow> 0
      | Some parent \<Rightarrow>
          (if \<not> truthy_str (otherSide parent position) then 0
           else getTotalTeamSize eng (the (otherSide parent position))))"

definition scoreByVolume :: "statsEngine \<Rightarrow> store \<Rightarrow> string \<Rightarrow> side \<Rightarrow> number" where
  "scoreByVolume eng st parentId position =
     (case getUserById st parentId of
        None \<Rightarrow> 0
      | Some parent \<Rightarrow>
          (if \<not> truthy_str (otherSide parent position) then 0
           else getTeamVolume eng (the (otherSide parent position)) / 1000))"

definition scoreByDepth :: "statsEngine \<Rightarrow> store \<Rightarrow> string \<Rightarrow> side \<Rightarrow> number" where
  "scoreByDepth eng st parentId position =
     (case getUserById st parentId of
        None \<Rightarrow> 0
      | Some parent \<Rightarrow>
          (if \<not> truthy_str (otherSide parent position) then 0
           else calculateMaxDepth eng (the (otherSide parent position)) * 5))"

definition scoreByBalance :: "statsEngine \<Rightarrow> store \<Rightarrow> string \<Rightarrow> side \<Rightarrow> number" where
  "scoreByBalance eng st parentId position =
     scoreByTeamSize eng st parentId position * (5 / 10)
     + scoreByVolume eng st parentId position * (3 / 10)
     + scoreByDepth eng st parentId position * (2 / 10)"

definition calculateOverloadPenalty :: "statsEngine \<Rightarrow> store \<Rightarrow> string \<Rightarrow> number" where
  "calculateOverloadPenalty eng st parentId =
     (case getUserById st parentId of
        None \<Rightarrow> 0
      | Some parent \<Rightarrow>
          (let leftSize = (if truthy_str (u_leftChild parent)
                           then getTotalTeamSize eng (the (u_leftChild parent)) else 0);
               rightSize = (if truthy_str (u_rightChild parent)
                            then getTotalTeamSize eng (the (u_rightChild parent)) else 0);
               imbalance = \<bar>leftSize - rightSize\<bar>
           in if imbalance > 10 then imbalance * 2 else 0))"

definition calculateCareerBonus :: "store \<Rightarrow> string \<Rightarrow> number" where
  "calculateCareerBonus st parentId =
     (case getUserById st parentId of
        None \<Rightarrow> 0
      | Some parent \<Rightarrow> cl_level (u_careerLevel parent) * 2)"

definition scorePlacementPosition ::
  "statsEngine \<Rightarrow> store \<Rightarrow> candidate \<Rightarrow> algorithm \<Rightarrow> preferences \<Rightarrow> xnumber" where
  "scorePlacementPosition eng st position alg prefs =
     (case getUserById st (c_parentId position) of
        None \<Rightarrow> Infinity
      | Some parent \<Rightarrow>
          (let score0 = of_nat (c_depth position) * 10;
               score1 = score0 +
                 (case alg of
                    size_based \<Rightarrow> scoreByTeamSize eng st (c_parentId position) (c_position position)
                  | volume_based \<Rightarrow> scoreByVolume eng st (c_parentId position) (c_position position)
                  | depth_first \<Rightarrow> scoreByDepth eng st (c_parentId position) (c_position position)
                  | balanced \<Rightarrow> scoreByBalance eng st (c_parentId position) (c_position position));
               score2 = (if pr_avoidOverloading prefs
                         then score1 + calculateOverloadPenalty eng st (c_parentId position)
                         else score1);
               score3 = (if pr_considerCareerLevel prefs
                         then score2 - calculateCareerBonus st (c_parentId position)
                         else score2)
           in Fin score3))"

text \<open>
  \<open>scoredCandidates.sort((a, b) => a.score - b.score)\<close>: a stable sort by the comparator;
  \<open>comes_before a b\<close> is "the comparator is negative" (the difference of two infinities is
  NaN, which the sort treats as equal).
\<close>

fun comes_before :: "xnumber \<Rightarrow> xnumber \<Rightarrow> bool" where
  "comes_before (Fin a) (Fin b) = (a - b < 0)"
| "comes_before (Fin a) Infinity = True"
| "comes_before Infinity b = False"

fun insert_scored :: "candidate \<times> xnumber \<Rightarrow> (candidate \<times> xnumber) list \<Rightarrow> (candidate \<times> xnumber) list" where
  "insert_scored x [] = [x]"
| "insert_scored x (y # ys) =
     (if comes_before (snd x) (snd y) then x # y # ys else y # insert_scored x ys)"

definition sort_scored :: "(candidate \<times> xnumber) list \<Rightarrow> (candidate \<times> xnumber) list" where
  "sort_scored xs = foldl (\<lambda>sorted x. insert_scored x sorted) [] xs"

definition findOptimalPlacement ::
  "statsEngine \<Rightarrow> store \<Rightarrow> string \<Rightarrow> algorithm \<Rightarrow> nat \<Rightarrow> preferences \<Rightarrow>
   (candidate \<times> xnumber) option" where
  "findOptimalPlacement eng st sponsorId alg maxDepth prefs =
     (let candidates = findAvailablePositions st sponsorId maxDepth 1
      in if length candidates = 0 then None
         else (let scoredCandidates =
                     map (\<lambda>c. (c, scorePlacementPosition eng st c alg prefs)) candidates
               in case sort_scored scoredCandidates of
                    [] \<Rightarrow> None
                  | best # rest \<Rightarrow> Some best))"

text \<open>\<open>executeBinaryPlacement\<close> throws when the parent is not in the store.\<close>

definition executeBinaryPlacement :: "store \<Rightarrow> string \<Rightarrow> string \<Rightarrow> side \<Rightarrow> store outcome" where
  "executeBinaryPlacement st userId parentId position =
     (case getUserById st parentId of
        None \<Rightarrow> Thrown ''Parent user not found''
      | Some parent \<Rightarrow>
          (let st1 = updateUser st parentId
                       (\<lambda>p. if position = left then p\<lparr>u_leftChild := Some userId\<rparr>
                            else p\<lparr>u_rightChild := Some userId\<rparr>);
               st2 = updateUser st1 userId (\<lambda>n. n\<lparr>u_sponsorId := Some parentId\<rparr>)
           in Returned st2))"

text \<open>
  The messages of the placement results are Turkish sentences; each is named by a
  constructor. The algorithm reported is the one searched with, \<open>none\<close> or
  \<open>preferred_side\<close>. The \<open>stats\<close> of a successful result (another answer of the
  statistics engine) and the admin log of \<open>placeBinaryUser\<close> are not modelled.
\<close>

datatype message =
    SponsorNotFound
  | PlacedOnPreferredSide side
  | NoSuitablePosition
  | PlacedSuccessfully side nat
  | ErrorDuringPlacement

datatype algorithmName = named algorithm | none_named | preferred_side_named

record placementResult =
  success :: bool
  placement :: "candidate option"
  message :: message
  algorithmUsed :: algorithmName

definition chosenAlgorithm :: "preferences \<Rightarrow> algorithm" where
  "chosenAlgorithm prefs = (case pr_algorithm prefs of None \<Rightarrow> balanced | Some a \<Rightarrow> a)"

text \<open>\<open>preferences.maxDepth || 7\<close>: an absent bound and the bound 0 are replaced by 7.\<close>

definition chosenMaxDepth :: "preferences \<Rightarrow> nat" where
  "chosenMaxDepth prefs =
     (case pr_maxDepth prefs of None \<Rightarrow> 7 | Some d \<Rightarrow> (if d \<noteq> 0 then d else 7))"

definition noPreferences :: preferences where
  "noPreferences =
     \<lparr>pr_algorithm = None, pr_maxDepth = None, pr_preferredSide = None,
      pr_considerCareerLevel = False, pr_avoidOverloading = False\<rparr>"

text \<open>
  The part of \<open>enhancedAutoPlacement\<close> from "Find optimal placement" to the end of its
  \<open>try\<close> block, with the \<open>catch\<close> that turns a throw of \<open>executeBinaryPlacement\<close> into a
  failure result. It returns the store with the result.
\<close>

definition searchAndPlace ::
  "statsEngine \<Rightarrow> store \<Rightarrow> string \<Rightarrow> string \<Rightarrow> preferences \<Rightarrow> store \<times> placementResult" where
  "searchAndPlace eng st newUserId sponsorId prefs =
     (let alg = chosenAlgorithm prefs; maxDepth = chosenMaxDepth prefs
      in case findOptimalPlacement eng st sponsorId alg maxDepth prefs of
           None \<Rightarrow>
             (st, \<lparr>success = False, placement = None, message = NoSuitablePosition,
                   algorithmUsed = named alg\<rparr>)
         | Some (p, score) \<Rightarrow>
             (case executeBinaryPlacement st newUserId (c_parentId p) (c_position p) of
                Thrown e \<Rightarrow>
                  (st, \<lparr>success = False, placement = None, message = ErrorDuringPlacement,
                        algorithmUsed = named alg\<rparr>)
              | Returned st' \<Rightarrow>
                  (st', \<lparr>success = True, placement = Some p,
                         message = PlacedSuccessfully (c_position p) (c_depth p),
                         algorithmUsed = named alg\<rparr>)))"

text \<open>
  \<open>placeBinaryUser(newUserId, sponsorId)\<close> as \<open>enhancedAutoPlacement\<close> calls it for a
  preferred side: no preferences, so it runs \<open>enhancedAutoPlacement\<close> with the default
  algorithm and bound and without preferred side. Only its effect on the store is used.
\<close>

definition placeBinaryUser_default :: "statsEngine \<Rightarrow> store \<Rightarrow> string \<Rightarrow> string \<Rightarrow> store" where
  "placeBinaryUser_default eng st newUserId sponsorId =
     (let sponsorId' =
            (if sponsorId = [] then
               (case getUserByEmail st admin_email of
                  None \<Rightarrow> sponsorId | Some admin \<Rightarrow> u_id admin)
             else sponsorId)
      in if sponsorId' = [] then st
         else (case getUserById st sponsorId' of
                 None \<Rightarrow> st
               | Some sponsor \<Rightarrow> fst (searchAndPlace eng st newUserId sponsorId' noPreferences)))"

definition slotOf :: "user \<Rightarrow> side \<Rightarrow> string option" where
  "slotOf u s = (if s = left then u_leftChild u else u_rightChild u)"

definition enhancedAutoPlacement ::
  "statsEngine \<Rightarrow> store \<Rightarrow> string \<Rightarrow> string \<Rightarrow> preferences \<Rightarrow> store \<times> placementResult" where
  "enhancedAutoPlacement eng st newUserId sponsorId prefs =
     (case getUserById st sponsorId of
        None \<Rightarrow>
          (st, \<lparr>success = False, placement = None, message = SponsorNotFound,
                algorithmUsed = none_named\<rparr>)
      | Some sponsor \<Rightarrow>
          (case pr_preferredSide prefs of
             Some (preferred s) \<Rightarrow>
               (if \<not> truthy_str (slotOf sponsor s)
                then (placeBinaryUser_default eng st newUserId sponsorId,
                      \<lparr>success = True,
                       placement = Some \<lparr>c_parentId = sponsorId, c_position = s, c_depth = 1\<rparr>,
                       message = PlacedOnPreferredSide s,
                       algorithmUsed = preferred_side_named\<rparr>)
                else searchAndPlace eng st newUserId sponsorId prefs)
           | _ \<Rightarrow> searchAndPlace eng st newUserId sponsorId prefs))"

text \<open>
  For stating how depths are reported: \<open>hops st a n b\<close> holds when \<open>b\<close> is reached from
  \<open>a\<close> by following \<open>n\<close> child links of members of the store.
\<close>

fun hops :: "store \<Rightarrow> string \<Rightarrow> nat \<Rightarrow> string \<Rightarrow> bool" where
  "hops st a 0 b = (a = b)"
| "hops st a (Suc n) b =
     (case getUserById st a of
        None \<Rightarrow> False
      | Some u \<Rightarrow>
          (truthy_str (u_leftChild u) \<and> hops st (the (u_leftChild u)) n b)
          \<or> (truthy_str (u_rightChild u) \<and> hops st (the (u_rightChild u)) n b))"

text \<open>A candidate names an open slot: its parent is in the store and has no child id there.\<close>

definition openSlot :: "store \<Rightarrow> candidate \<Rightarrow> bool" where
  "openSlot st p =
     (case getUserById st (c_parentId p) of
        None \<Rightarrow> False
      | Some u \<Rightarrow> \<not> truthy_str (slotOf u (c_position p)))"

section \<open>Classic percentage engine\<close>

text \<open>
  \<open>init\<close> makes the database object in one of two ways, and the engine behaves differently
  on them.

  \<^item> \<open>JsonFile\<close>: the object of \<open>JSONFilePreset\<close>. Its \<open>read\<close> parses the file again
    and replaces \<open>db.data\<close>, its \<open>write\<close> stores \<open>db.data\<close>. Every method starts with a
    \<open>read\<close>, so the database value of the model is the content of the file (which is taken
    to exist, as it does after the first write). What has been put into \<open>db.data\<close> and not
    written is lost at the next \<open>read\<close>, and a member object obtained by an earlier lookup
    is a copy: changing its wallet changes nothing until the wallet is stored by
    \<open>updateUser\<close>, which then replaces the stored wallet.

  \<^item> \<open>InMemory\<close>: the fallback object of the \<open>catch\<close> branch, whose \<open>read\<close> and
    \<open>write\<close> do nothing. \<open>getUserById\<close> returns the stored member object, and the copy
    that \<open>updateUser\<close> stores shares its \<open>wallet\<close> object with the member it replaces, so
    every \<open>+=\<close> on a wallet, through whichever reference, acts on the stored wallet of that
    member.

  The calls the engine does not await (\<open>createTransaction\<close> and \<open>updateUser\<close> in the
  depth-bonus callback) are modelled at the place where they are started. In memory they only
  add to wallets and append transactions, in whichever order; with the file this is one of the
  orders in which they can run against the reads that follow.
\<close>

datatype adapter = InMemory | JsonFile

datatype txType = deposit | withdrawal | commission | bonus | transfer | payment

datatype transactionStatus = pending_tx | completed | rejected

text \<open>The descriptions are template strings; a constructor per template holds its holes.\<close>

datatype description =
    DirectSponsorBonus string
  | BinaryNetworkBonus nat
  | PassiveIncomeLevel int string string
  | SystemFund string
  | CareerBonus string

record transaction =
  tx_userId :: string
  tx_type :: txType
  tx_amount :: number
  tx_description :: description
  tx_status :: transactionStatus

text \<open>
  \<open>distributeProductCommissions\<close> reads \<open>id\<close>, \<open>userId\<close>, \<open>sponsorId\<close>, \<open>amount\<close> and
  \<open>commissionsDistributed\<close> of the purchase it is given; the record holds these.
\<close>

record productPurchase =
  pp_id :: string
  pp_userId :: string
  pp_sponsorId :: "string option"
  pp_amount :: number
  pp_commissionsDistributed :: bool

record productCommission =
  pc_purchaseId :: string
  pc_userId :: string
  pc_amount :: number
  pc_type :: string
  pc_level :: nat

record database =
  db_adapter :: adapter
  db_users :: store
  db_transactions :: "transaction list"
  db_productPurchases :: "productPurchase list"
  db_productCommissions :: "productCommission list"

definition creditWallet :: "store \<Rightarrow> string \<Rightarrow> (wallet \<Rightarrow> wallet) \<Rightarrow> store" where
  "creditWallet st i g = updateUser st i (\<lambda>u. u\<lparr>u_wallet := g (u_wallet u)\<rparr>)"

definition credit :: "database \<Rightarrow> string \<Rightarrow> (wallet \<Rightarrow> wallet) \<Rightarrow> database" where
  "credit db i g = db\<lparr>db_users := creditWallet (db_users db) i g\<rparr>"

definition updateUserWallet :: "database \<Rightarrow> string \<Rightarrow> number \<Rightarrow> txType \<Rightarrow> database" where
  "updateUserWallet db userId amt ty =
     (case getUserById (db_users db) userId of
        None \<Rightarrow> db
      | Some u \<Rightarrow>
          credit db userId
            (\<lambda>w. if ty = deposit \<or> ty = commission \<or> ty = bonus
                  then w\<lparr>balance := balance w + amt, totalEarnings := totalEarnings w + amt\<rparr>
                  else if ty = withdrawal then w\<lparr>balance := balance w - amt\<rparr>
                  else w))"

text \<open>
  \<open>createTransaction\<close> pushes the transaction, calls \<open>updateUserWallet\<close> for a completed
  one, and writes. With the file, the \<open>read\<close> at the start of \<open>getUserById\<close> in
  \<open>updateUserWallet\<close> loads the file, which does not have the pushed transaction: a
  completed transaction is not stored.
\<close>

definition createTransaction :: "database \<Rightarrow> transaction \<Rightarrow> database" where
  "createTransaction db t =
     (let db1 = db\<lparr>db_transactions := db_transactions db @ [t]\<rparr>
      in if tx_status t = completed
         then updateUserWallet (case db_adapter db of InMemory \<Rightarrow> db1 | JsonFile \<Rightarrow> db)
                (tx_userId t) (tx_amount t) (tx_type t)
         else db1)"

text \<open>
  What the engine does after \<open>createTransaction\<close>: \<open>member.wallet.x += amount\<close> and
  \<open>await this.updateUser(member.id, { wallet: member.wallet })\<close>, for a member object
  obtained by a lookup before. In memory \<open>member.wallet\<close> is the stored wallet of that
  member. With the file it is the wallet of the copy read then, and the update replaces the
  stored wallet by it: what \<open>updateUserWallet\<close> has added in between is overwritten.
\<close>

definition updateWalletOf :: "database \<Rightarrow> user \<Rightarrow> (wallet \<Rightarrow> wallet) \<Rightarrow> database" where
  "updateWalletOf db member g =
     (case db_adapter db of
        InMemory \<Rightarrow> credit db (u_id member) g
      | JsonFile \<Rightarrow> credit db (u_id member) (\<lambda>w. g (u_wallet member)))"

text \<open>
  \<open>traverseUpline\<close>: the loop over \<open>level\<close> from 1 to 7; the callback answers whether to
  go on and may change the database.
\<close>

function traverseUpline ::
  "(user \<Rightarrow> nat \<Rightarrow> database \<Rightarrow> bool \<times> database) \<Rightarrow> string \<Rightarrow> nat \<Rightarrow> database \<Rightarrow> database" where
  "traverseUpline callback currentUserId level db =
     (if level \<le> 7 then
        (case getUserById (db_users db) currentUserId of
           None \<Rightarrow> db
         | Some currentUser \<Rightarrow>
             (if \<not> truthy_str (u_sponsorId currentUser) then db
              else (case getUserById (db_users db) (the (u_sponsorId currentUser)) of
                      None \<Rightarrow> db
                    | Some uplineUser \<Rightarrow>
                        (if \<not> fst (callback uplineUser level db)
                         then snd (callback uplineUser level db)
                         else traverseUpline callback (u_id uplineUser) (level + 1)
                                (snd (callback uplineUser level db))))))
      else db)"
  by pat_completeness auto
termination
  by (relation "measure (\<lambda>(callback, currentUserId, level, db). 8 - level)") auto

declare traverseUpline.simps [simp del]

definition commissionRates :: "number list" where
  "commissionRates = [8 / 100, 6 / 100, 5 / 100, 3 / 100, 2 / 100, 15 / 1000, 5 / 1000]"

text \<open>The callback of \<open>distributeBinaryCommissions\<close>; \<open>commissionRates[level - 1] || 0\<close>.\<close>

definition binaryCallback :: "number \<Rightarrow> user \<Rightarrow> nat \<Rightarrow> database \<Rightarrow> bool \<times> database" where
  "binaryCallback amt uplineUser level db =
     (if level > 7 \<or> \<not> u_isActive uplineUser then (False, db)
      else (let commissionRate =
                  (if level - 1 < length commissionRates
                   then or_zero (Some (commissionRates ! (level - 1))) else 0);
                commissionAmt = amt * commissionRate
            in (True,
                if commissionAmt > 0 then
                  updateWalletOf
                    (createTransaction db
                       \<lparr>tx_userId = u_id uplineUser, tx_type = commission,
                        tx_amount = commissionAmt,
                        tx_description = BinaryNetworkBonus level,
                        tx_status = completed\<rparr>)
                    uplineUser
                    (\<lambda>w. w\<lparr>careerBonus := careerBonus w + commissionAmt,
                            balance := balance w + commissionAmt\<rparr>)
                else db)))"

definition distributeBinaryCommissions :: "number \<Rightarrow> string \<Rightarrow> database \<Rightarrow> database" where
  "distributeBinaryCommissions amt userId db = traverseUpline (binaryCallback amt) userId 1 db"

text \<open>The payout of \<open>distributePassiveIncome\<close> to one sponsor, made when it is positive.\<close>

definition passiveAmountFor :: "number \<Rightarrow> user \<Rightarrow> nat \<Rightarrow> number" where
  "passiveAmountFor amt sponsor levels =
     (let baseRate = cl_passiveIncomeRate (u_careerLevel sponsor);
          levelMultiplier = of_nat levels / 7
      in amt * baseRate * levelMultiplier / 100)"

definition payPassive :: "number \<Rightarrow> user \<Rightarrow> user \<Rightarrow> nat \<Rightarrow> database \<Rightarrow> database" where
  "payPassive amt u sponsor levels db =
     (let passiveAmount = passiveAmountFor amt sponsor levels
      in if passiveAmount > 0 then
           updateWalletOf
             (createTransaction db
                \<lparr>tx_userId = u_id sponsor, tx_type = commission, tx_amount = passiveAmount,
                 tx_description =
                   PassiveIncomeLevel (8 - int levels) (u_fullName u)
                     (cl_name (u_careerLevel sponsor)),
                 tx_status = completed\<rparr>)
             sponsor
             (\<lambda>w. w\<lparr>passiveIncome := passiveIncome w + passiveAmount,
                     balance := balance w + passiveAmount\<rparr>)
         else db)"

fun distributePassiveIncome :: "number \<Rightarrow> string \<Rightarrow> nat \<Rightarrow> database \<Rightarrow> database" where
  "distributePassiveIncome amt userId 0 db = db"
| "distributePassiveIncome amt userId (Suc n) db =
     (case getUserById (db_users db) userId of
        None \<Rightarrow> db
      | Some u \<Rightarrow>
          (if \<not> truthy_str (u_sponsorId u) then db
           else (case getUserById (db_users db) (the (u_sponsorId u)) of
                   None \<Rightarrow> db
                 | Some sponsor \<Rightarrow>
                     (if u_isActive sponsor \<and> cl_passiveIncomeRate (u_careerLevel sponsor) > 0
                      then distributePassiveIncome amt (u_id sponsor) n
                             (payPassive amt u sponsor (Suc n) db)
                      else db))))"

definition paySponsorBonus :: "number \<Rightarrow> user \<Rightarrow> database \<Rightarrow> database" where
  "paySponsorBonus investment u db =
     (let sponsorBonusAmt = investment * (1 / 10)
      in case getUserById (db_users db) (the (u_sponsorId u)) of
           None \<Rightarrow> db
         | Some sponsor \<Rightarrow>
             (if u_isActive sponsor then
                updateWalletOf
                  (createTransaction db
                     \<lparr>tx_userId = u_id sponsor, tx_type = commission,
                      tx_amount = sponsorBonusAmt,
                      tx_description = DirectSponsorBonus (u_fullName u),
                      tx_status = completed\<rparr>)
                  sponsor
                  (\<lambda>w. w\<lparr>sponsorBonus := sponsorBonus w + sponsorBonusAmt,
                          balance := balance w + sponsorBonusAmt\<rparr>)
              else db))"

definition systemFundTx :: "number \<Rightarrow> user \<Rightarrow> user \<Rightarrow> transaction" where
  "systemFundTx investment u admin =
     \<lparr>tx_userId = u_id admin, tx_type = bonus, tx_amount = investment * (6 / 10),
      tx_description = SystemFund (u_fullName u), tx_status = completed\<rparr>"

definition paySystemFund :: "number \<Rightarrow> user \<Rightarrow> database \<Rightarrow> database" where
  "paySystemFund investment u db =
     (let systemFund = investment * (6 / 10)
      in case getUserByEmail (db_users db) admin_email of
           None \<Rightarrow> db
         | Some admin \<Rightarrow>
             updateWalletOf (createTransaction db (systemFundTx investment u admin)) admin
               (\<lambda>w. w\<lparr>balance := balance w + systemFund\<rparr>))"

text \<open>
  \<open>calculateAndDistributeCommissions\<close>: the guard, then the sponsor bonus, the depth bonus
  and the passive income (\<open>beforeSystemFund\<close>), then the system fund.
\<close>

definition beforeSystemFund :: "number \<Rightarrow> string \<Rightarrow> user \<Rightarrow> database \<Rightarrow> database" where
  "beforeSystemFund investment userId u db =
     (let db1 = paySponsorBonus investment u db;
          db2 = distributeBinaryCommissions (investment * (25 / 100)) userId db1
      in distributePassiveIncome (investment * (5 / 100)) userId 7 db2)"

definition calculateAndDistributeCommissions :: "number \<Rightarrow> string \<Rightarrow> database \<Rightarrow> database" where
  "calculateAndDistributeCommissions investment userId db =
     (case getUserById (db_users db) userId of
        None \<Rightarrow> db
      | Some u \<Rightarrow>
          (if \<not> truthy_str (u_sponsorId u) then db
           else paySystemFund investment u (beforeSystemFund investment userId u db)))"

text \<open>
  \<open>distributeProductCommissions\<close>. Neither the class nor anything else in the repository
  defines the method \<open>distributeNetworkCommissions\<close> it calls: the call evaluates
  \<open>this.distributeNetworkCommissions\<close> to \<open>undefined\<close> and throws a \<open>TypeError\<close>, and the
  \<open>catch\<close> of the function ends it there.
\<close>

definition distributeNetworkCommissions ::
  "string \<Rightarrow> number \<Rightarrow> string \<Rightarrow> database \<Rightarrow> database outcome" where
  "distributeNetworkCommissions userId amt purchaseId db =
     Thrown ''this.distributeNetworkCommissions is not a function''"

definition createProductCommission :: "database \<Rightarrow> productCommission \<Rightarrow> database" where
  "createProductCommission db c = db\<lparr>db_productCommissions := db_productCommissions db @ [c]\<rparr>"

fun markDistributed :: "productPurchase list \<Rightarrow> string \<Rightarrow> productPurchase list" where
  "markDistributed [] i = []"
| "markDistributed (p # ps) i =
     (if pp_id p = i then p\<lparr>pp_commissionsDistributed := True\<rparr> # ps
      else p # markDistributed ps i)"

text \<open>The amounts: 40% of the purchase is commission; a quarter of it is the sponsor's, the
  career and passive parts (62.5% and 12.5% of it) go to the network distribution.\<close>

definition sponsorShare :: "productPurchase \<Rightarrow> number" where
  "sponsorShare purchase =
     (let commissionAmount = pp_amount purchase * (4 / 10)
      in commissionAmount * (25 / 100))"

definition networkShare :: "productPurchase \<Rightarrow> number" where
  "networkShare purchase =
     (let commissionAmount = pp_amount purchase * (4 / 10);
          careerAmount = commissionAmount * (625 / 1000);
          passiveAmount = commissionAmount * (125 / 1000)
      in careerAmount + passiveAmount)"

text \<open>The step "Distribute sponsor commission".\<close>

definition payPurchaseSponsor :: "productPurchase \<Rightarrow> database \<Rightarrow> database" where
  "payPurchaseSponsor purchase db =
     (if truthy_str (pp_sponsorId purchase) then
        (case getUserById (db_users db) (the (pp_sponsorId purchase)) of
           None \<Rightarrow> db
         | Some sponsor \<Rightarrow>
             createProductCommission
               (updateUserWallet db (u_id sponsor) (sponsorShare purchase) commission)
               \<lparr>pc_purchaseId = pp_id purchase, pc_userId = u_id sponsor,
                pc_amount = sponsorShare purchase, pc_type = ''sponsor'', pc_level = 1\<rparr>)
      else db)"

definition distributeProductCommissions :: "productPurchase \<Rightarrow> database \<Rightarrow> database" where
  "distributeProductCommissions purchase db =
     (if pp_commissionsDistributed purchase then db
      else (let db1 = payPurchaseSponsor purchase db
            in case distributeNetworkCommissions (pp_userId purchase) (networkShare purchase)
                      (pp_id purchase) db1 of
                 Thrown e \<Rightarrow> db1
               | Returned db2 \<Rightarrow>
                   db2\<lparr>db_productPurchases :=
                         markDistributed (db_productPurchases db2) (pp_id purchase)\<rparr>))"

text \<open>The purchase record the database holds for an id.\<close>

definition storedPurchase :: "database \<Rightarrow> string \<Rightarrow> productPurchase option" where
  "storedPurchase db i = find (\<lambda>p. pp_id p = i) (db_productPurchases db)"

text \<open>For stating who is paid: the balance of a member of the store.\<close>

definition balanceOf :: "database \<Rightarrow> string \<Rightarrow> number" where
  "balanceOf db i = (case getUserById (db_users db) i of None \<Rightarrow> 0 | Some u \<Rightarrow> balance (u_wallet u))"

text \<open>
  The sponsors the passive-income walk can pay: it goes from a member to the sponsor while
  the sponsor is in the store, active and has a positive passive rate, for at most
  \<open>levels\<close> steps.
\<close>

fun passiveWalk :: "store \<Rightarrow> string \<Rightarrow> nat \<Rightarrow> string list" where
  "passiveWalk st userId 0 = []"
| "passiveWalk st userId (Suc n) =
     (case getUserById st userId of
        None \<Rightarrow> []
      | Some u \<Rightarrow>
          (if \<not> truthy_str (u_sponsorId u) then []
           else (case getUserById st (the (u_sponsorId u)) of
                   None \<Rightarrow> []
                 | Some sponsor \<Rightarrow>
                     (if u_isActive sponsor \<and> cl_passiveIncomeRate (u_careerLevel sponsor) > 0
                      then u_id sponsor # passiveWalk st (u_id sponsor) n
                      else []))))"

text \<open>The same for the depth bonus: the walk goes on while the sponsor is in the store and
  active, from \<open>level\<close> up to level 7.\<close>

function binaryWalk :: "store \<Rightarrow> string \<Rightarrow> nat \<Rightarrow> string list" where
  "binaryWalk st userId level =
     (if level \<le> 7 then
        (case getUserById st userId of
           None \<Rightarrow> []
         | Some u \<Rightarrow>
             (if \<not> truthy_str (u_sponsorId u) then []
              else (case getUserById st (the (u_sponsorId u)) of
                      None \<Rightarrow> []
                    | Some sponsor \<Rightarrow>
                        (if u_isActive sponsor
                         then u_id sponsor # binaryWalk st (u_id sponsor) (level + 1)
                         else []))))
      else [])"
  by pat_completeness auto
termination
  by (relation "measure (\<lambda>(st, userId, level). 8 - level)") auto

declare binaryWalk.simps [simp del]

text \<open>
  For stating what a distribution may change. \<open>memberStep S u u'\<close>: the member \<open>u'\<close> is
  \<open>u\<close> with possibly another wallet, whose balance is not lower, and it is \<open>u\<close> itself
  when the id is not in \<open>S\<close>. \<open>paysOnly S db db'\<close>: the members of \<open>db'\<close> are those of
  \<open>db\<close>, in order, each changed at most in this way, and the transactions of \<open>db'\<close> are
  those of \<open>db\<close> followed by commission transactions to ids in \<open>S\<close>.
\<close>

definition memberStep :: "string set \<Rightarrow> user \<Rightarrow> user \<Rightarrow> bool" where
  "memberStep S u u' =
     (u' = u\<lparr>u_wallet := u_wallet u'\<rparr> \<and> balance (u_wallet u) \<le> balance (u_wallet u')
      \<and> (u_id u \<notin> S \<longrightarrow> u' = u))"

definition paysOnly :: "string set \<Rightarrow> database \<Rightarrow> database \<Rightarrow> bool" where
  "paysOnly S db db' =
     (list_all2 (memberStep S) (db_users db) (db_users db')
      \<and> take (length (db_transactions db)) (db_transactions db') = db_transactions db
      \<and> (\<forall>t \<in> set (drop (length (db_transactions db)) (db_transactions db')).
            tx_userId t \<in> S \<and> tx_type t = commission))"


section \<open>Example snapshots\<close>

definition example_wallet :: wallet where
  "example_wallet =
     \<lparr>balance = 0, totalEarnings = 0, sponsorBonus = 0, careerBonus = 0,
      passiveIncome = 0, leadershipBonus = 0\<rparr>"

definition example_level :: careerLevel where
  "example_level =
     \<lparr>cl_name = ''Nefs-i Levvame'', cl_level = 2, cl_commissionRate = 3,
      cl_passiveIncomeRate = 1 / 2\<rparr>"

text \<open>A member with the given id, sponsor, monthly and annual sales and lifetime investment.\<close>

definition example_user ::
  "string \<Rightarrow> string option \<Rightarrow> number \<Rightarrow> number \<Rightarrow> number \<Rightarrow> user" where
  "example_user i s m a t =
     \<lparr>u_id = i, u_memberId = ''ak'' @ i, u_fullName = i, u_email = i @ ''@example.org'',
      u_sponsorId = s, u_leftChild = None, u_rightChild = None, u_isActive = True,
      u_careerLevel = example_level, u_totalInvestment = t, u_wallet = example_wallet,
      u_monthlySalesVolume = Some m, u_annualSalesVolume = Some a\<rparr>"

text \<open>A buyer below seven fully active sponsors.\<close>

definition full_chain_users :: "user list" where
  "full_chain_users =
     [example_user ''b'' (Some ''s1'') 0 0 0,
      example_user ''s1'' (Some ''s2'') 20 200 100,
      example_user ''s2'' (Some ''s3'') 20 200 100,
      example_user ''s3'' (Some ''s4'') 20 200 100,
      example_user ''s4'' (Some ''s5'') 20 200 100,
      example_user ''s5'' (Some ''s6'') 20 200 100,
      example_user ''s6'' (Some ''s7'') 20 200 100,
      example_user ''s7'' None 20 200 100]"

text \<open>Three fully active members and one whose monthly sales are one unit short.\<close>

definition three_active_users :: "user list" where
  "three_active_users =
     [example_user ''a'' None 20 200 100,
      example_user ''i'' (Some ''a'') 19 200 100,
      example_user ''b'' (Some ''a'') 25 200 100,
      example_user ''c'' (Some ''b'') 20 300 150]"

definition default_level_amounts :: "number list" where
  "default_level_amounts = [5 / 2, 3 / 2, 1, 7 / 10, 1 / 2, 2 / 5, 3 / 10]"

text \<open>A member of a binary tree: id, left child id, right child id.\<close>

definition tree_user :: "string \<Rightarrow> string option \<Rightarrow> string option \<Rightarrow> user" where
  "tree_user i l r = (example_user i None 0 0 0)\<lparr>u_leftChild := l, u_rightChild := r\<rparr>"

text \<open>A root with two children; the left child has a left child of its own.\<close>

definition small_tree :: store where
  "small_tree =
     [tree_user ''r'' (Some ''a'') (Some ''b''),
      tree_user ''a'' (Some ''c'') None,
      tree_user ''b'' None None,
      tree_user ''c'' None None]"

text \<open>An answer of the statistics engine: the leg of \<open>a\<close> is the larger one.\<close>

definition example_stats :: "string \<Rightarrow> legStats" where
  "example_stats i =
     \<lparr>ls_teamSize = (if i = ''a'' then 5 else 3), ls_volume = 1000, ls_activeMembers = 2,
      ls_maxDepth = 1, ls_avgInvestment = 100\<rparr>"

text \<open>
  Another answer: the leg of \<open>a\<close> has two members one level deep and no volume, the leg of
  \<open>b\<close> has a volume of 600 and nothing else. The weighted sums of the two are both 0.018
  when computed exactly; the scores in double arithmetic differ in the last place.
\<close>

definition close_stats :: "string \<Rightarrow> legStats" where
  "close_stats i =
     (if i = ''a''
      then \<lparr>ls_teamSize = 2, ls_volume = 0, ls_activeMembers = 0, ls_maxDepth = 1,
            ls_avgInvestment = 0\<rparr>
      else \<lparr>ls_teamSize = 0, ls_volume = 600, ls_activeMembers = 0, ls_maxDepth = 0,
            ls_avgInvestment = 0\<rparr>)"

definition example_engine :: statsEngine where
  "example_engine =
     \<lparr>getTotalTeamSize = (\<lambda>i. if i = ''a'' then 5 else 3),
      getTeamVolume = (\<lambda>i. 1000),
      calculateMaxDepth = (\<lambda>i. 1)\<rparr>"


text \<open>A member for the classic engine: id, sponsor, \<open>isActive\<close>, passive rate.\<close>

definition classic_member :: "string \<Rightarrow> string option \<Rightarrow> bool \<Rightarrow> number \<Rightarrow> user" where
  "classic_member i s act rate =
     (example_user i s 0 0 0)
       \<lparr>u_isActive := act, u_careerLevel := example_level\<lparr>cl_passiveIncomeRate := rate\<rparr>\<rparr>"

definition admin_member :: user where
  "admin_member = (classic_member ''admin-001'' None True 3)\<lparr>u_email := admin_email\<rparr>"

text \<open>An in-memory database with these members, and a database in a file.\<close>

definition mk_db :: "store \<Rightarrow> database" where
  "mk_db st =
     \<lparr>db_adapter = InMemory, db_users = st, db_transactions = [], db_productPurchases = [],
      db_productCommissions = []\<rparr>"

definition on_file :: "database \<Rightarrow> database" where
  "on_file db = db\<lparr>db_adapter := JsonFile\<rparr>"

text \<open>
  A chain \<open>u\<close>, \<open>s1\<close>, \<open>s2\<close>, admin, and a member without sponsor; in the first database
  \<open>s1\<close> is inactive, in the second everybody is active.
\<close>

definition inactive_chain_db :: database where
  "inactive_chain_db =
     mk_db [classic_member ''u'' (Some ''s1'') True 0,
            classic_member ''s1'' (Some ''s2'') False (1 / 2),
            classic_member ''s2'' (Some ''admin-001'') True (1 / 2),
            admin_member,
            classic_member ''lone'' None True 0]"


definition active_chain_db :: database where
  "active_chain_db =
     mk_db [classic_member ''u'' (Some ''s1'') True 0,
            classic_member ''s1'' (Some ''s2'') True (1 / 2),
            classic_member ''s2'' (Some ''admin-001'') True (1 / 2),
            admin_member,
            classic_member ''lone'' None True 0]"

definition example_purchase :: "bool \<Rightarrow> productPurchase" where
  "example_purchase done =
     \<lparr>pp_id = ''p1'', pp_userId = ''u'', pp_sponsorId = Some ''s1'', pp_amount = 100,
      pp_commissionsDistributed = done\<rparr>"

definition purchase_db :: database where
  "purchase_db = active_chain_db\<lparr>db_productPurchases := [example_purchase False]\<rparr>"

definition sponsor_commission :: monolineCommissionTransaction where
  "sponsor_commission =
     \<lparr>t_buyerId = ''b'', t_productPrice = 20, t_commissionType = direct_sponsor,
      t_recipientId = ''s1'', t_level = None, t_percentage = 15, t_amount = 3,
      t_status = pending\<rparr>"


section \<open>Properties of the rounding\<close>

text \<open>
  The binade of a positive \<open>x\<close> is the exponent described above. The rounded value of
  \<open>x\<close> differs from \<open>x\<close> by at most half a unit in the last place, which is at most
  \<open>x\<close> divided by 2 to the power 53 in absolute value.
\<close>

lemma pow2_power_int: "pow2 e = power_int 2 e"
  by (simp add: pow2_def power_int_def field_simps)

lemma pow2_pos: "0 < pow2 e"
  by (simp add: pow2_def)

lemma pow2_diff: "pow2 (a - b) = pow2 a / pow2 b"
  by (simp add: pow2_power_int power_int_diff)

lemma pow2_numeral: "pow2 52 = 2 ^ 52"
  by (simp add: pow2_def)

lemma binade_lower:
  assumes "0 < x"
  shows "pow2 (binade x) \<le> x"
proof (cases "1 \<le> x")
  case True
  let ?n = "nat \<lfloor>x\<rfloor>"
  from True have n: "0 < ?n" by simp
  from floorlog_bounds [OF n, of 2] have b: "2 ^ (floorlog 2 ?n - 1) \<le> ?n" by simp
  from n have fl1: "1 \<le> floorlog 2 ?n"
    by (simp add: floorlog_def)
  then have e: "binade x = int (floorlog 2 ?n - 1)"
    using True by (simp add: binade_def)
  have "pow2 (binade x) = 2 ^ (floorlog 2 ?n - 1)"
    by (simp add: e pow2_def)
  also have "\<dots> = of_nat (2 ^ (floorlog 2 ?n - 1))" by simp
  also from b have "\<dots> \<le> of_nat ?n" by (simp only: of_nat_le_iff)
  also have "\<dots> = of_int \<lfloor>x\<rfloor>" using True by simp
  also have "\<dots> \<le> x" by simp
  finally show ?thesis .
next
  case False
  let ?n = "nat \<lfloor>1 / x\<rfloor>"
  let ?b = "int (floorlog 2 ?n)"
  from False assms have "1 \<le> 1 / x" by (simp add: field_simps)
  then have n: "0 < ?n" by simp
  show ?thesis
  proof (cases "pow2 (1 - ?b) \<le> x")
    case True
    with False show ?thesis by (simp add: binade_def Let_def)
  next
    case nb: False
    with False have e: "binade x = - ?b" by (simp add: binade_def Let_def)
    from floorlog_bounds [OF n, of 2] have "?n < 2 ^ floorlog 2 ?n" by simp
    then have "?n + 1 \<le> 2 ^ floorlog 2 ?n" by linarith
    then have "(of_nat (?n + 1) :: rat) \<le> of_nat (2 ^ floorlog 2 ?n)"
      by (simp only: of_nat_le_iff)
    then have le: "of_int \<lfloor>1 / x\<rfloor> + 1 \<le> (2 :: rat) ^ floorlog 2 ?n"
      using n by simp
    have "1 / x < of_int \<lfloor>1 / x\<rfloor> + 1" by linarith
    with le have "1 / x < 2 ^ floorlog 2 ?n" by linarith
    with assms have "1 / 2 ^ floorlog 2 ?n \<le> x"
      by (simp add: field_simps)
    moreover have "pow2 (- ?b) = 1 / 2 ^ floorlog 2 ?n"
      by (simp add: pow2_def)
    ultimately show ?thesis by (simp add: e)
  qed
qed

lemma binade_upper:
  assumes "0 < x"
  shows "x < pow2 (binade x + 1)"
proof (cases "1 \<le> x")
  case True
  let ?n = "nat \<lfloor>x\<rfloor>"
  from True have n: "0 < ?n" by simp
  from floorlog_bounds [OF n, of 2] have "?n < 2 ^ floorlog 2 ?n" by simp
  then have "?n + 1 \<le> 2 ^ floorlog 2 ?n" by linarith
  then have "(of_nat (?n + 1) :: rat) \<le> of_nat (2 ^ floorlog 2 ?n)"
    by (simp only: of_nat_le_iff)
  then have le: "of_int \<lfloor>x\<rfloor> + 1 \<le> (2 :: rat) ^ floorlog 2 ?n"
    using n by simp
  have "x < of_int \<lfloor>x\<rfloor> + 1" by linarith
  with le have "x < 2 ^ floorlog 2 ?n" by linarith
  moreover have "pow2 (binade x + 1) = 2 ^ floorlog 2 ?n"
    using True by (simp add: binade_def pow2_def)
  ultimately show ?thesis by simp
next
  case False
  let ?n = "nat \<lfloor>1 / x\<rfloor>"
  let ?b = "int (floorlog 2 ?n)"
  from False assms have y: "1 \<le> 1 / x" by (simp add: field_simps)
  then have n: "0 < ?n" by simp
  then have b1: "1 \<le> floorlog 2 ?n" by (simp add: floorlog_def)
  show ?thesis
  proof (cases "pow2 (1 - ?b) \<le> x")
    case True
    with False have e: "binade x = 1 - ?b" by (simp add: binade_def Let_def)
    from floorlog_bounds [OF n, of 2] have "2 ^ (floorlog 2 ?n - 1) \<le> ?n" by simp
    then have "(of_nat (2 ^ (floorlog 2 ?n - 1)) :: rat) \<le> of_nat ?n"
      by (simp only: of_nat_le_iff)
    then have "(2 :: rat) ^ (floorlog 2 ?n - 1) \<le> of_int \<lfloor>1 / x\<rfloor>"
      using n by simp
    also have "\<dots> \<le> 1 / x" by simp
    finally have "x * 2 ^ (floorlog 2 ?n - 1) \<le> 1"
      using assms by (simp add: field_simps)
    then have "x \<le> 1 / 2 ^ (floorlog 2 ?n - 1)"
      by (simp add: field_simps)
    also have "\<dots> = pow2 (1 - ?b)"
      using b1 by (auto simp: pow2_def nat_diff_distrib)
    also have "\<dots> < pow2 (2 - ?b)"
      by (simp add: pow2_power_int power_int_strict_increasing)
    finally show ?thesis by (simp add: e)
  next
    case nb: False
    with False have e: "binade x = - ?b" by (simp add: binade_def Let_def)
    from nb show ?thesis by (simp add: e)
  qed
qed

lemma roundHalfEven_error: "\<bar>of_int (roundHalfEven y) - y\<bar> \<le> 1 / 2"
proof -
  have "of_int \<lfloor>y\<rfloor> \<le> y" "y < of_int \<lfloor>y\<rfloor> + 1" by linarith+
  then show ?thesis
    by (auto simp: roundHalfEven_def Let_def abs_le_iff)
qed

lemma fl_error: "\<bar>fl x - x\<bar> \<le> \<bar>x\<bar> / 2 ^ 53"
proof (cases "x = 0")
  case True
  then show ?thesis by (simp add: fl_def)
next
  case False
  let ?a = "\<bar>x\<bar>"
  let ?u = "pow2 (binade ?a - 52)"
  let ?r = "of_int (roundHalfEven (?a / ?u)) :: rat"
  from False have a: "0 < ?a" by simp
  have u: "0 < ?u" by (rule pow2_pos)
  have fx: "fl x = sgn x * (?r * ?u)"
    using False by (simp add: fl_def Let_def)
  have xx: "x = sgn x * ?a" by (simp add: sgn_mult_abs)
  have "fl x - x = sgn x * (?r * ?u - ?a)"
    by (subst fx, subst (3) xx) (simp add: algebra_simps)
  then have "\<bar>fl x - x\<bar> = \<bar>?r * ?u - ?a\<bar>"
    using False by (simp add: abs_mult abs_sgn_eq)
  also have "?r * ?u - ?a = (?r - ?a / ?u) * ?u"
    using u by (simp add: field_simps)
  also have "\<bar>\<dots>\<bar> = \<bar>?r - ?a / ?u\<bar> * ?u"
    using u by (simp add: abs_mult)
  also have "\<dots> \<le> 1 / 2 * ?u"
    using roundHalfEven_error [of "?a / ?u"] u by (intro mult_right_mono) simp_all
  also have "\<dots> = pow2 (binade ?a) / 2 ^ 53"
    by (simp add: pow2_diff pow2_numeral)
  also have "\<dots> \<le> ?a / 2 ^ 53"
    using binade_lower [OF a] by (simp add: divide_right_mono)
  finally show ?thesis .
qed

text \<open>
  The rounded value is a number with a significand of 53 bits: an integer between 2 to the
  power 52 and 2 to the power 53, nearest to the scaled \<open>x\<close>, times the unit of the binade.
\<close>

lemma roundHalfEven_range:
  assumes "of_int a \<le> y" "y < of_int b"
  shows "a \<le> roundHalfEven y \<and> roundHalfEven y \<le> b"
proof -
  from assms(1) have 1: "a \<le> \<lfloor>y\<rfloor>" by (simp add: le_floor_iff)
  from assms(2) have 2: "\<lfloor>y\<rfloor> < b" by (simp add: floor_less_iff)
  from 1 2 show ?thesis
    by (auto simp: roundHalfEven_def Let_def)
qed

lemma fl_significand:
  assumes "x \<noteq> 0"
  shows "\<exists>m. fl x = sgn x * of_int m * pow2 (binade \<bar>x\<bar> - 52)
           \<and> 2 ^ 52 \<le> m \<and> m \<le> 2 ^ 53
           \<and> \<bar>of_int m - \<bar>x\<bar> / pow2 (binade \<bar>x\<bar> - 52)\<bar> \<le> (1 / 2 :: rat)"
proof -
  let ?a = "\<bar>x\<bar>"
  let ?u = "pow2 (binade ?a - 52)"
  let ?y = "?a / ?u"
  from assms have a: "0 < ?a" by simp
  have u: "0 < ?u" by (rule pow2_pos)
  have pu: "pow2 (binade ?a) = 2 ^ 52 * ?u"
    using u by (simp add: pow2_diff pow2_numeral)
  have pu1: "pow2 (binade ?a + 1) = 2 ^ 53 * ?u"
  proof -
    have "pow2 (binade ?a + 1) = 2 * pow2 (binade ?a)"
      by (simp add: pow2_power_int power_int_add)
    with pu show ?thesis by simp
  qed
  from binade_lower [OF a] pu u have lo: "2 ^ 52 \<le> ?y"
    by (simp add: pos_le_divide_eq)
  from binade_upper [OF a] pu1 u have hi: "?y < 2 ^ 53"
    by (simp add: pos_divide_less_eq)
  from lo have lo': "of_int (2 ^ 52) \<le> ?y" by simp
  from hi have hi': "?y < of_int (2 ^ 53)" by simp
  from roundHalfEven_range [OF lo' hi']
  have r: "2 ^ 52 \<le> roundHalfEven ?y \<and> roundHalfEven ?y \<le> 2 ^ 53" .
  have "fl x = sgn x * of_int (roundHalfEven ?y) * ?u"
    using assms by (simp add: fl_def Let_def)
  with r roundHalfEven_error [of ?y] show ?thesis by blast
qed

text \<open>
  Some known doubles: the literal 0.1, the sum 0.1 + 0.2 (0.30000000000000004), the
  quotient 10 / 3 (3.3333333333333335), the product (1 / 49) * 49 (0.9999999999999999);
  small integers are doubles.
\<close>

lemma fl_known_values:
  "fl (1 / 10) = 3602879701896397 / 36028797018963968
   \<and> fadd (fl (1 / 10)) (fl (2 / 10)) = 1351079888211149 / 4503599627370496
   \<and> fdiv 10 3 = 7505999378950827 / 2251799813685248
   \<and> fmul (fdiv 1 49) 49 = 9007199254740991 / 9007199254740992
   \<and> fl 600 = 600 \<and> fadd 3 3 = 6 \<and> fl (- 3) = - 3 \<and> fl (1 / 2) = 1 / 2"
  by code_simp

section \<open>Properties of the monoline engine\<close>

subsection \<open>What a sale accounts for\<close>

lemma upline_forEach_sum:
  "upline_forEach b p lv chain index (txs, inactive) = (txs', inactive') \<Longrightarrow>
   sum_list (map t_amount txs') + inactive' =
     sum_list (map t_amount txs) + inactive
       + sum_list (map (\<lambda>l. amount (snd l)) (take (length chain) (drop index lv)))"
proof (induction chain arbitrary: index txs inactive)
  case Nil
  then show ?case by simp
next
  case (Cons u rest)
  show ?case
  proof (cases "index < length lv")
    case True
    then have d: "drop index lv = lv ! index # drop (Suc index) lv"
      by (simp add: Cons_nth_drop_Suc)
    show ?thesis
    proof (cases "isFullyActive (checkUserActivity u None)")
      case True
      with \<open>index < length lv\<close> Cons.prems Cons.IH show ?thesis
        by (simp add: Let_def d)
    next
      case False
      with \<open>index < length lv\<close> Cons.prems Cons.IH show ?thesis
        by (simp add: Let_def d)
    qed
  next
    case False
    with Cons.prems Cons.IH [of "Suc index" txs inactive] show ?thesis
      by simp
  qed
qed

lemma getUplineChain_length: "length (getUplineChain u allUsers n) \<le> n"
  by (induction n arbitrary: u) (auto split: option.splits)

text \<open>
  With the default structure a sale accounts for the two fixed parts (9.00 and 0.10), for the
  sponsor bonus when the sponsor is in the snapshot, and for one level amount per member of
  the upline chain, paid or forfeited. The amounts of the levels above the end of the chain
  appear nowhere.
\<close>

lemma accounted_default:
  assumes "calculateMonolineCommissions buyerId price allUsers None = Returned r"
    and "find_user allUsers buyerId = Some buyer"
  shows "accounted r = 91 / 10
           + (if getUplineChain buyer allUsers 7 = [] then 0 else 3)
           + sum_list (take (length (getUplineChain buyer allUsers 7)) default_level_amounts)"
proof -
  let ?s = getDefaultCommissionStructure
  obtain txs inactive where fe:
    "upline_forEach buyerId price (depthLevels ?s) (getUplineChain buyer allUsers 7) 0
       (direct_sponsor_txs buyerId price ?s buyer allUsers, 0) = (txs, inactive)"
    by (cases "upline_forEach buyerId price (depthLevels ?s)
       (getUplineChain buyer allUsers 7) 0
       (direct_sponsor_txs buyerId price ?s buyer allUsers, 0)") auto
  have r: "accounted r = sum_list (map t_amount txs) + inactive + 91 / 10"
    using assms fe
    by (auto simp: calculateMonolineCommissions_def Let_def accounted_def
        getDefaultCommissionStructure_def mk_bonus_def)
  have lv: "map (\<lambda>l. amount (snd l)) (depthLevels ?s) = default_level_amounts"
    by (simp add: depthLevels_def getDefaultCommissionStructure_def mk_bonus_def
        default_level_amounts_def)
  have ds: "sum_list (map t_amount (direct_sponsor_txs buyerId price ?s buyer allUsers))
      = (if getUplineChain buyer allUsers 7 = [] then 0 else 3)"
    by (simp add: direct_sponsor_txs_def getDefaultCommissionStructure_def mk_bonus_def
        eval_nat_numeral split: option.splits)
  from upline_forEach_sum [OF fe] have
    "sum_list (map t_amount txs) + inactive =
       (if getUplineChain buyer allUsers 7 = [] then 0 else 3)
       + sum_list (take (length (getUplineChain buyer allUsers 7)) default_level_amounts)"
    by (simp add: ds take_map [symmetric] lv)
  with r show ?thesis by simp
qed

text \<open>The seven level amounts add up to 6.90, so even a complete chain accounts for 19.00.\<close>

lemma accounted_full_chain:
  assumes "calculateMonolineCommissions buyerId price allUsers None = Returned r"
    and "find_user allUsers buyerId = Some buyer"
    and "length (getUplineChain buyer allUsers 7) = 7"
  shows "accounted r = 19"
  using accounted_default [OF assms(1,2)] assms(3)
  by (auto simp: default_level_amounts_def)

lemma sum_list_take_le:
  fixes xs :: "number list"
  shows "(\<And>x. x \<in> set xs \<Longrightarrow> 0 \<le> x) \<Longrightarrow> sum_list (take k xs) \<le> sum_list xs"
proof (induction xs arbitrary: k)
  case Nil
  then show ?case by simp
next
  case (Cons x xs)
  then have "sum_list (take j xs) \<le> sum_list xs" for j by simp
  moreover have "0 \<le> x" "0 \<le> sum_list xs"
    using Cons.prems by (simp_all add: sum_list_nonneg)
  ultimately show ?case
    by (cases k) (simp_all add: add_increasing)
qed

lemma accounted_le:
  assumes "calculateMonolineCommissions buyerId price allUsers None = Returned r"
  shows "accounted r \<le> 19"
proof -
  from assms obtain buyer where b: "find_user allUsers buyerId = Some buyer"
    by (auto simp: calculateMonolineCommissions_def Let_def split: option.splits)
  have "sum_list (take (length (getUplineChain buyer allUsers 7)) default_level_amounts)
      \<le> sum_list default_level_amounts"
    by (rule sum_list_take_le) (auto simp: default_level_amounts_def)
  then have "sum_list (take (length (getUplineChain buyer allUsers 7)) default_level_amounts)
      \<le> 69 / 10"
    by (simp add: default_level_amounts_def)
  with accounted_default [OF assms b] show ?thesis
    by (cases "getUplineChain buyer allUsers 7 = []") simp_all
qed

text \<open>
  Claim C1 (exact-sum invariant). The claim: for every buyer and snapshot, the paid
  transactions, the passive pool and the company fund (with the forfeited amounts) of a sale
  at the default price add up to 20.00, also when the upline chain is shorter than seven.
  The code does not do that. For a buyer without sponsor the result holds no transaction, a
  passive pool of 0.10 and a company fund of 9.00: 9.10 in all. For a buyer below seven fully
  active sponsors it holds 9.90 of transactions: 19.00 in all, because the seven level amounts
  add up to 6.90 and not to the 7.90 the structure declares.
\<close>

theorem monoline_exact_sum_violated:
  "calculateMonolineCommissions ''b'' 20 [example_user ''b'' None 0 0 0] None =
     Returned \<lparr>transactions = [], passivePoolAmount = 1 / 10, companyFundAmount = 9,
               totalDistributed = 0, inactiveCommissionsToCompany = 0\<rparr>
   \<and> map_outcome accounted
       (calculateMonolineCommissions ''b'' 20 [example_user ''b'' None 0 0 0] None) =
     Returned (91 / 10)
   \<and> map_outcome accounted (calculateMonolineCommissions ''b'' 20 full_chain_users None) =
     Returned 19
   \<and> map_outcome totalDistributed
       (calculateMonolineCommissions ''b'' 20 full_chain_users None) = Returned (99 / 10)
   \<and> totalAmount (depthCommissions getDefaultCommissionStructure) = 79 / 10
   \<and> sum_list (map (\<lambda>l. amount (snd l)) (depthLevels getDefaultCommissionStructure)) = 69 / 10"
  by code_simp

subsection \<open>Activity eligibility\<close>

text \<open>
  Claim C4 (activity evaluator). For every member and every sales override the evaluator
  returns the four booleans: \<open>isMonthlyActive\<close> says that the monthly sales are at least 20,
  \<open>isAnnuallyActive\<close> that the annual sales are at least 200, \<open>hasInitialPurchase\<close> that
  the lifetime investment is at least 100, and \<open>isFullyActive\<close> is the conjunction of the
  three. The monthly sales are the override when one is given and is not zero, the stored
  monthly volume of the member otherwise, and 0 when there is none; the same holds for the
  annual sales. The thresholds are those of \<open>getMembershipRequirements\<close>, the only ones the
  evaluator reads. Stored monthly sales of 19 give \<open>isMonthlyActive = false\<close>, of exactly
  20 give \<open>true\<close>.
\<close>

theorem checkUserActivity_thresholds:
  "isMonthlyActive (checkUserActivity u sd) =
     (20 \<le> (case sd of
               Some s \<Rightarrow>
                 (if monthlySales s \<noteq> 0 then monthlySales s
                  else (case u_monthlySalesVolume u of None \<Rightarrow> 0 | Some v \<Rightarrow> v))
             | None \<Rightarrow> (case u_monthlySalesVolume u of None \<Rightarrow> 0 | Some v \<Rightarrow> v)))
   \<and> isAnnuallyActive (checkUserActivity u sd) =
     (200 \<le> (case sd of
                Some s \<Rightarrow>
                  (if annualSales s \<noteq> 0 then annualSales s
                   else (case u_annualSalesVolume u of None \<Rightarrow> 0 | Some v \<Rightarrow> v))
              | None \<Rightarrow> (case u_annualSalesVolume u of None \<Rightarrow> 0 | Some v \<Rightarrow> v)))
   \<and> hasInitialPurchase (checkUserActivity u sd) = (100 \<le> u_totalInvestment u)
   \<and> isFullyActive (checkUserActivity u sd) =
     (isMonthlyActive (checkUserActivity u sd) \<and> isAnnuallyActive (checkUserActivity u sd)
      \<and> hasInitialPurchase (checkUserActivity u sd))
   \<and> monthlyActivity_minimumAmount getMembershipRequirements = 20
   \<and> annualActivity_minimumAmount getMembershipRequirements = 200
   \<and> initialPurchase_minimumAmount getMembershipRequirements = 100
   \<and> isMonthlyActive (checkUserActivity (u\<lparr>u_monthlySalesVolume := Some v\<rparr>) None) = (20 \<le> v)
   \<and> isAnnuallyActive (checkUserActivity (u\<lparr>u_annualSalesVolume := Some v\<rparr>) None) = (200 \<le> v)
   \<and> \<not> isMonthlyActive (checkUserActivity (u\<lparr>u_monthlySalesVolume := Some 19\<rparr>) None)
   \<and> isMonthlyActive (checkUserActivity (u\<lparr>u_monthlySalesVolume := Some 20\<rparr>) None)"
  by (simp add: checkUserActivity_def Let_def getMembershipRequirements_def monthly_figure_def
      annual_figure_def initial_figure_def or_zero_def or_num_def truthy_num_def
      split: option.splits)

text \<open>
  Claim C10 (zero overrides are ignored). For every user, stored volumes positive or not,
  \<open>checkUserActivity(user, {monthlySales: 0, annualSales: 0})\<close> returns the four booleans
  of \<open>checkUserActivity(user)\<close>: a zero override is falsy under \<open>||\<close> and falls back to the
  stored volume, and an override is used exactly when it is not zero.
\<close>

theorem checkUserActivity_zero_override_ignored:
  "checkUserActivity u (Some \<lparr>monthlySales = 0, annualSales = 0\<rparr>) = checkUserActivity u None
   \<and> monthly_figure u (Some \<lparr>monthlySales = m, annualSales = a\<rparr>) =
       (if m \<noteq> 0 then m else monthly_figure u None)
   \<and> annual_figure u (Some \<lparr>monthlySales = m, annualSales = a\<rparr>) =
       (if a \<noteq> 0 then a else annual_figure u None)"
  by (simp add: checkUserActivity_def Let_def
      monthly_figure_def annual_figure_def or_zero_def or_num_def truthy_num_def)

subsection \<open>Passive pool distribution\<close>

lemma rounded_share:
  assumes "0 < n"
  shows "\<bar>fdiv pool (of_nat n) * of_nat n - pool\<bar> \<le> \<bar>pool\<bar> / 2 ^ 53"
proof -
  let ?q = "pool / of_nat n"
  from assms have n: "(0 :: rat) < of_nat n" by simp
  then have p: "pool = ?q * of_nat n" by simp
  have "fl ?q * of_nat n - pool = (fl ?q - ?q) * of_nat n"
    using n by (simp add: algebra_simps)
  then have "\<bar>fl ?q * of_nat n - pool\<bar> = \<bar>fl ?q - ?q\<bar> * of_nat n"
    by (simp add: abs_mult)
  also have "\<dots> \<le> \<bar>?q\<bar> / 2 ^ 53 * of_nat n"
    using fl_error [of ?q] by (intro mult_right_mono) simp_all
  also have "\<dots> = \<bar>pool\<bar> / 2 ^ 53"
    using n by simp
  finally show ?thesis by (simp add: fdiv_def)
qed

text \<open>
  Claim C7 (passive pool). The distribution keeps the fully active members of the snapshot,
  in order; \<open>activeMembers\<close> is their number and there is one recipient for each, with the
  member's ids, status \<open>pending\<close> and the amount \<open>amountPerMember\<close>. With at least one of
  them \<open>amountPerMember\<close> is the pool divided by their number, as a double: the exact
  quotient rounded. Times their number it is the pool up to the rounding of that one
  division: the difference is at most the pool divided by 2 to the power 53 in absolute
  value. With none, \<open>amountPerMember\<close> is 0 and the list of recipients is empty: no
  division takes place.
\<close>

theorem passive_pool_distribution:
  "let d = calculatePassiveIncomeDistribution pool allUsers;
       act = filter (\<lambda>u. isFullyActive (checkUserActivity u None)) allUsers
   in activeMembers d = length act \<and> length (recipients d) = activeMembers d
    \<and> totalPool d = pool
    \<and> map r_userId (recipients d) = map u_id act
    \<and> map r_memberId (recipients d) = map u_memberId act
    \<and> (\<forall>r \<in> set (recipients d). r_status r = pending \<and> r_amount r = amountPerMember d)
    \<and> (activeMembers d > 0 \<longrightarrow>
          amountPerMember d = fl (pool / of_nat (activeMembers d))
          \<and> \<bar>amountPerMember d * of_nat (activeMembers d) - pool\<bar> \<le> \<bar>pool\<bar> / 2 ^ 53)
    \<and> (activeMembers d = 0 \<longrightarrow> amountPerMember d = 0 \<and> recipients d = [])"
proof -
  let ?act = "filter (\<lambda>u. isFullyActive (checkUserActivity u None)) allUsers"
  have "0 < length ?act \<Longrightarrow>
      \<bar>fdiv pool (of_nat (length ?act)) * of_nat (length ?act) - pool\<bar> \<le> \<bar>pool\<bar> / 2 ^ 53"
    by (rule rounded_share)
  then show ?thesis
    by (auto simp: calculatePassiveIncomeDistribution_def Let_def fdiv_def)
qed

text \<open>
  Witness for claim C7, the scenario of the specification: a pool of 10.00 and three fully
  active members (a fourth member is one unit short) gives each of the three the double
  nearest to 10/3, which is 3.3333333333333335; three times this is more than the pool by
  2 to the power -51. An empty snapshot gives the zero-recipient result.
\<close>

theorem passive_pool_distribution_witness:
  "activeMembers (calculatePassiveIncomeDistribution 10 three_active_users) = 3
   \<and> amountPerMember (calculatePassiveIncomeDistribution 10 three_active_users) =
       7505999378950827 / 2251799813685248
   \<and> amountPerMember (calculatePassiveIncomeDistribution 10 three_active_users) * 3 - 10 =
       1 / 2 ^ 51
   \<and> \<bar>amountPerMember (calculatePassiveIncomeDistribution 10 three_active_users) * 3 - 10\<bar>
       \<le> 10 / 2 ^ 53
   \<and> map r_userId (recipients (calculatePassiveIncomeDistribution 10 three_active_users)) =
       [''a'', ''b'', ''c'']
   \<and> map r_status (recipients (calculatePassiveIncomeDistribution 10 three_active_users)) =
       [pending, pending, pending]
   \<and> map r_amount (recipients (calculatePassiveIncomeDistribution 10 three_active_users)) =
       [7505999378950827 / 2251799813685248, 7505999378950827 / 2251799813685248,
        7505999378950827 / 2251799813685248]
   \<and> activeMembers (calculatePassiveIncomeDistribution 10 []) = 0
   \<and> amountPerMember (calculatePassiveIncomeDistribution 10 []) = 0
   \<and> recipients (calculatePassiveIncomeDistribution 10 []) = []"
proof -
  let ?d = "calculatePassiveIncomeDistribution 10 three_active_users"
  let ?e = "calculatePassiveIncomeDistribution 10 []"
  have act: "filter (\<lambda>u. isFullyActive (checkUserActivity u None)) three_active_users
      = [example_user ''a'' None 20 200 100, example_user ''b'' (Some ''a'') 25 200 100,
         example_user ''c'' (Some ''b'') 20 300 150]"
    by code_simp
  have st: "map r_status (recipients ?d) = [pending, pending, pending]"
    by code_simp
  have am: "map r_amount (recipients ?d) =
      [7505999378950827 / 2251799813685248, 7505999378950827 / 2251799813685248,
       7505999378950827 / 2251799813685248]"
    by code_simp
  have q: "fl (10 / 3) = 7505999378950827 / 2251799813685248"
    by code_simp
  note t = passive_pool_distribution [of 10 three_active_users, unfolded Let_def act]
  note t0 = passive_pool_distribution [of 10 "[]", unfolded Let_def]
  from t have n: "activeMembers ?d = 3" by simp
  from t n have "amountPerMember ?d = fl (10 / 3)" by simp
  with q have per: "amountPerMember ?d = 7505999378950827 / 2251799813685248" by simp
  from per have ex: "amountPerMember ?d * 3 - 10 = 1 / 2 ^ 51" by simp
  from per have tol: "\<bar>amountPerMember ?d * 3 - 10\<bar> \<le> 10 / 2 ^ 53" by simp
  from t have rs: "map r_userId (recipients ?d) = [''a'', ''b'', ''c'']"
    by (simp add: example_user_def)
  from t0 have n0: "activeMembers ?e = 0" by simp
  from t0 n0 have z: "amountPerMember ?e = 0 \<and> recipients ?e = []" by simp
  from n per ex tol rs st am n0 z show ?thesis by simp
qed

subsection \<open>A buyer that is not in the snapshot\<close>

text \<open>
  Counterexample to claim C9 as stated (a missing buyer gives a failure result and nothing
  is thrown): with a buyer id that is not in the snapshot the function throws
  \<open>Error('Buyer not found')\<close>.
\<close>

theorem monoline_unknown_buyer_throws:
  "calculateMonolineCommissions ''ghost'' 20 [example_user ''b'' None 0 0 0] None =
     Thrown ''Buyer not found''"
  by code_simp

text \<open>
  Claim C9 as amended. \<open>calculateMonolineCommissions\<close> throws \<open>Error('Buyer not found')\<close>
  exactly when the buyer id is not in the snapshot, and returns a result in every other case:
  a sponsor or upline member that is not in the snapshot is no error, the walk stops there.
\<close>

theorem monoline_throws_iff_buyer_missing:
  "(find_user allUsers buyerId = None) =
     (calculateMonolineCommissions buyerId price allUsers cs = Thrown ''Buyer not found'')
   \<and> (find_user allUsers buyerId \<noteq> None) =
     (\<exists>r. calculateMonolineCommissions buyerId price allUsers cs = Returned r)"
  by (auto simp: calculateMonolineCommissions_def Let_def split: option.splits prod.splits)

section \<open>Properties of the placement engine\<close>

subsection \<open>Enumerating the open slots\<close>

lemma fap_sound:
  "p \<in> set (findAvailablePositions st s m d) \<Longrightarrow>
   d \<le> c_depth p \<and> c_depth p \<le> m \<and> hops st s (c_depth p - d) (c_parentId p) \<and> openSlot st p"
proof (induction st s m d rule: findAvailablePositions.induct)
  case (1 st s m d)
  note unfold = findAvailablePositions.simps [of st s m d]
  from "1.prems" have dm: "\<not> m < d"
    by (auto simp: unfold split: if_splits)
  from "1.prems" dm obtain u where u: "getUserById st s = Some u"
    by (cases "getUserById st s") (auto simp: unfold)
  from "1.prems" dm u consider
      (hereL) "\<not> truthy_str (u_leftChild u)" "p = \<lparr>c_parentId = s, c_position = left, c_depth = d\<rparr>"
    | (hereR) "\<not> truthy_str (u_rightChild u)" "p = \<lparr>c_parentId = s, c_position = right, c_depth = d\<rparr>"
    | (downL) "truthy_str (u_leftChild u)" "p \<in> set (findAvailablePositions st (the (u_leftChild u)) m (d + 1))"
    | (downR) "truthy_str (u_rightChild u)" "p \<in> set (findAvailablePositions st (the (u_rightChild u)) m (d + 1))"
    by (auto simp: unfold split: if_splits)
  then show ?case
  proof cases
    case hereL
    with dm u show ?thesis by (simp add: openSlot_def slotOf_def)
  next
    case hereR
    with dm u show ?thesis by (simp add: openSlot_def slotOf_def)
  next
    case downL
    from "1.IH"(1) [OF dm u _ downL(2)] downL(1)
    have ih: "d + 1 \<le> c_depth p" "c_depth p \<le> m"
      "hops st (the (u_leftChild u)) (c_depth p - (d + 1)) (c_parentId p)" "openSlot st p"
      by simp_all
    from ih(1) have "c_depth p - d = Suc (c_depth p - (d + 1))" by simp
    with ih u downL(1) show ?thesis by simp
  next
    case downR
    from "1.IH"(2) [OF dm u _ downR(2)] downR(1)
    have ih: "d + 1 \<le> c_depth p" "c_depth p \<le> m"
      "hops st (the (u_rightChild u)) (c_depth p - (d + 1)) (c_parentId p)" "openSlot st p"
      by simp_all
    from ih(1) have "c_depth p - d = Suc (c_depth p - (d + 1))" by simp
    with ih u downR(1) show ?thesis by simp
  qed
qed

lemma fap_empty_slots:
  assumes "findAvailablePositions st s m d = []" "d \<le> m" "getUserById st s = Some u"
  shows "truthy_str (u_leftChild u) \<and> truthy_str (u_rightChild u)"
  using assms by (subst (asm) findAvailablePositions.simps) (auto split: if_splits)

lemma chosenMaxDepth_pos: "1 \<le> chosenMaxDepth prefs"
  by (auto simp: chosenMaxDepth_def split: option.splits)

lemma no_candidate_fails:
  assumes "getUserById st sponsorId = Some sponsor"
    and "findAvailablePositions st sponsorId (chosenMaxDepth prefs) 1 = []"
  shows "enhancedAutoPlacement eng st newUserId sponsorId prefs =
     (st, \<lparr>success = False, placement = None, message = NoSuitablePosition,
           algorithmUsed = named (chosenAlgorithm prefs)\<rparr>)"
proof -
  from fap_empty_slots [OF assms(2) chosenMaxDepth_pos assms(1)]
  have full: "truthy_str (slotOf sponsor s)" for s
    by (simp add: slotOf_def)
  have sp: "searchAndPlace eng st newUserId sponsorId prefs =
     (st, \<lparr>success = False, placement = None, message = NoSuitablePosition,
           algorithmUsed = named (chosenAlgorithm prefs)\<rparr>)"
    using assms(2) by (simp add: searchAndPlace_def findOptimalPlacement_def Let_def)
  show ?thesis
    using assms(1) full sp
    by (simp add: enhancedAutoPlacement_def split: option.splits preferredSide.splits)
qed

lemma insert_scored_set: "set (insert_scored x ys) = insert x (set ys)"
  by (induction ys) auto

lemma sort_scored_set_aux: "set (foldl (\<lambda>sorted x. insert_scored x sorted) acc xs) = set acc \<union> set xs"
  by (induction xs arbitrary: acc) (auto simp: insert_scored_set)

lemma sort_scored_set: "set (sort_scored xs) = set xs"
  by (simp add: sort_scored_def sort_scored_set_aux)

lemma findOptimalPlacement_candidate:
  assumes "findOptimalPlacement eng st sponsorId alg maxDepth prefs = Some (p, sc)"
  shows "p \<in> set (findAvailablePositions st sponsorId maxDepth 1)"
proof -
  let ?cs = "findAvailablePositions st sponsorId maxDepth 1"
  let ?scored = "map (\<lambda>c. (c, scorePlacementPosition eng st c alg prefs)) ?cs"
  from assms have "(p, sc) \<in> set (sort_scored ?scored)"
    by (auto simp: findOptimalPlacement_def Let_def split: if_splits list.splits)
  then show ?thesis by (auto simp: sort_scored_set)
qed

lemma searchAndPlace_success:
  assumes "searchAndPlace eng st newUserId sponsorId prefs = (st', r)" "success r"
  shows "\<exists>p. placement r = Some p
           \<and> p \<in> set (findAvailablePositions st sponsorId (chosenMaxDepth prefs) 1)"
proof (cases "findOptimalPlacement eng st sponsorId (chosenAlgorithm prefs)
                (chosenMaxDepth prefs) prefs")
  case None
  with assms show ?thesis
    by (auto simp: searchAndPlace_def Let_def)
next
  case (Some best)
  obtain p sc where best: "best = (p, sc)" by (cases best)
  from findOptimalPlacement_candidate [OF Some [unfolded best]]
  have "p \<in> set (findAvailablePositions st sponsorId (chosenMaxDepth prefs) 1)" .
  moreover from assms Some best have "placement r = Some p"
    by (auto simp: searchAndPlace_def Let_def split: outcome.splits)
  ultimately show ?thesis by blast
qed

text \<open>
  Claim C8 (bounded search). Every candidate of \<open>findAvailablePositions\<close> has a depth
  between the depth it was started at and \<open>maxDepth\<close>; its parent is reached from the start
  by as many child links as its depth exceeds the starting depth, and it names an open slot
  of a member of the store. If the sponsor is in the store and the enumeration from the sponsor
  within the bound is empty, \<open>enhancedAutoPlacement\<close> leaves the store as it is and returns
  \<open>success = false\<close> with the message "no suitable position" and the name of the algorithm
  searched with. A successful search places at one of the enumerated candidates, so not deeper
  than the bound.
\<close>

theorem placement_search_bounded:
  "(\<forall>p \<in> set (findAvailablePositions st s maxDepth d).
       d \<le> c_depth p \<and> c_depth p \<le> maxDepth
       \<and> hops st s (c_depth p - d) (c_parentId p) \<and> openSlot st p)
   \<and> (getUserById st sponsorId \<noteq> None
        \<and> findAvailablePositions st sponsorId (chosenMaxDepth prefs) 1 = [] \<longrightarrow>
      enhancedAutoPlacement eng st newUserId sponsorId prefs =
        (st, \<lparr>success = False, placement = None, message = NoSuitablePosition,
              algorithmUsed = named (chosenAlgorithm prefs)\<rparr>))
   \<and> (success (snd (searchAndPlace eng st newUserId sponsorId prefs)) \<longrightarrow>
        (\<exists>p \<in> set (findAvailablePositions st sponsorId (chosenMaxDepth prefs) 1).
           placement (snd (searchAndPlace eng st newUserId sponsorId prefs)) = Some p
           \<and> c_depth p \<le> chosenMaxDepth prefs))"
proof (intro conjI ballI impI)
  fix p
  assume p: "p \<in> set (findAvailablePositions st s maxDepth d)"
  from fap_sound [OF p]
  show "d \<le> c_depth p" "c_depth p \<le> maxDepth"
    "hops st s (c_depth p - d) (c_parentId p)" "openSlot st p"
    by simp_all
next
  assume a: "getUserById st sponsorId \<noteq> None
        \<and> findAvailablePositions st sponsorId (chosenMaxDepth prefs) 1 = []"
  then obtain sponsor where "getUserById st sponsorId = Some sponsor" by auto
  with a show "enhancedAutoPlacement eng st newUserId sponsorId prefs =
        (st, \<lparr>success = False, placement = None, message = NoSuitablePosition,
              algorithmUsed = named (chosenAlgorithm prefs)\<rparr>)"
    by (simp add: no_candidate_fails)
next
  let ?r = "searchAndPlace eng st newUserId sponsorId prefs"
  assume s: "success (snd ?r)"
  have "?r = (fst ?r, snd ?r)" by simp
  from searchAndPlace_success [OF this s] obtain p where
    p: "placement (snd ?r) = Some p"
       "p \<in> set (findAvailablePositions st sponsorId (chosenMaxDepth prefs) 1)"
    by blast
  from fap_sound [OF p(2)] have "c_depth p \<le> chosenMaxDepth prefs" by simp
  with p show "\<exists>p \<in> set (findAvailablePositions st sponsorId (chosenMaxDepth prefs) 1).
           placement (snd ?r) = Some p \<and> c_depth p \<le> chosenMaxDepth prefs"
    by blast
qed

text \<open>
  Witness for claim C8. In the small tree the search with bound 2 from the root finds three slots at depth 2,
  one hop below the root; with bound 1 it finds none and the placement fails.
\<close>

theorem placement_search_bounded_witness:
  "findAvailablePositions small_tree ''r'' 2 1 =
     [\<lparr>c_parentId = ''a'', c_position = right, c_depth = 2\<rparr>,
      \<lparr>c_parentId = ''b'', c_position = left, c_depth = 2\<rparr>,
      \<lparr>c_parentId = ''b'', c_position = right, c_depth = 2\<rparr>]
   \<and> hops small_tree ''r'' 1 ''a'' \<and> hops small_tree ''r'' 1 ''b''
   \<and> findAvailablePositions small_tree ''r'' 1 1 = []
   \<and> enhancedAutoPlacement example_engine small_tree ''n'' ''r''
        (noPreferences\<lparr>pr_maxDepth := Some 1\<rparr>) =
      (small_tree, \<lparr>success = False, placement = None, message = NoSuitablePosition,
                    algorithmUsed = named balanced\<rparr>)
   \<and> placement (snd (searchAndPlace example_engine small_tree ''n'' ''r'' noPreferences)) =
      Some \<lparr>c_parentId = ''b'', c_position = left, c_depth = 2\<rparr>
   \<and> placement (snd (searchAndPlace example_engine small_tree ''n'' ''r'' noPreferences))
        \<in> Some ` set (findAvailablePositions small_tree ''r'' 7 1)"
proof -
  let ?one = "noPreferences\<lparr>pr_maxDepth := Some 1\<rparr>"
  have c2: "findAvailablePositions small_tree ''r'' 2 1 =
     [\<lparr>c_parentId = ''a'', c_position = right, c_depth = 2\<rparr>,
      \<lparr>c_parentId = ''b'', c_position = left, c_depth = 2\<rparr>,
      \<lparr>c_parentId = ''b'', c_position = right, c_depth = 2\<rparr>]"
    by code_simp
  have c1: "findAvailablePositions small_tree ''r'' 1 1 = []"
    by code_simp
  have m1: "chosenMaxDepth ?one = 1" "chosenAlgorithm ?one = balanced"
    by (simp_all add: chosenMaxDepth_def chosenAlgorithm_def noPreferences_def)
  have sp: "getUserById small_tree ''r'' \<noteq> None"
    by code_simp
  have ok: "success (snd (searchAndPlace example_engine small_tree ''n'' ''r'' noPreferences))"
    by code_simp
  have pl: "placement (snd (searchAndPlace example_engine small_tree ''n'' ''r'' noPreferences)) =
      Some \<lparr>c_parentId = ''b'', c_position = left, c_depth = 2\<rparr>"
    by code_simp
  note t = placement_search_bounded [of small_tree "''r''" 2 1 "''r''" ?one example_engine "''n''"]
  from t c2 have h: "hops small_tree ''r'' 1 ''a''" "hops small_tree ''r'' 1 ''b''"
    by simp_all
  from t sp c1 m1 have f: "enhancedAutoPlacement example_engine small_tree ''n'' ''r'' ?one =
      (small_tree, \<lparr>success = False, placement = None, message = NoSuitablePosition,
                    algorithmUsed = named balanced\<rparr>)"
    by simp
  have m7: "chosenMaxDepth noPreferences = 7"
    by (simp add: chosenMaxDepth_def noPreferences_def)
  note t7 = placement_search_bounded [where st = small_tree and sponsorId = "''r''"
      and prefs = noPreferences and eng = example_engine and newUserId = "''n''"
      and s = "''r''" and maxDepth = 7 and d = 1]
  from t7 ok m7 obtain q where q: "q \<in> set (findAvailablePositions small_tree ''r'' 7 1)"
    "placement (snd (searchAndPlace example_engine small_tree ''n'' ''r'' noPreferences)) = Some q"
    by auto
  then have inside:
    "placement (snd (searchAndPlace example_engine small_tree ''n'' ''r'' noPreferences))
        \<in> Some ` set (findAvailablePositions small_tree ''r'' 7 1)"
    by simp
  from c2 h c1 f pl inside show ?thesis by simp
qed


subsection \<open>Descending to the weaker leg\<close>

lemma fwl_sound:
  "findWeakestLeg fuel stats st userId alg = Some (Some p) \<Longrightarrow>
   \<exists>parent. getUserById st (c_parentId p) = Some parent
      \<and> resolveChild st (slotOf parent (c_position p)) = None
      \<and> (c_position p = right \<longrightarrow> resolveChild st (u_leftChild parent) \<noteq> None)
      \<and> c_score p = 0 \<and> 1 \<le> c_depth p"
proof (induction fuel arbitrary: userId p)
  case 0
  then show ?case by simp
next
  case (Suc fuel)
  from Suc.prems obtain u where u: "getUserById st userId = Some u"
    by (cases "getUserById st userId") auto
  show ?case
  proof (cases "resolveChild st (u_leftChild u)")
    case None
    with Suc.prems u show ?thesis
      by (cases "resolveChild st (u_rightChild u)") (auto simp: slotOf_def)
  next
    case (Some l)
    note l = this
    show ?thesis
    proof (cases "resolveChild st (u_rightChild u)")
      case None
      with Suc.prems u l show ?thesis
        by (auto simp: slotOf_def)
    next
      case (Some r)
      let ?next = "if legScoreFor alg (stats (u_id l)) \<le> legScoreFor alg (stats (u_id r))
                   then u_id l else u_id r"
      from Suc.prems u l Some
      have "map_option deeper (findWeakestLeg fuel stats st ?next alg) = Some (Some p)"
        by (simp add: Let_def split: if_splits)
      then obtain q where q: "findWeakestLeg fuel stats st ?next alg = Some (Some q)"
        and p: "p = q\<lparr>c_depth := c_depth q + 1\<rparr>"
        by (auto simp: deeper_def)
      from Suc.IH [OF q] p show ?thesis by auto
    qed
  qed
qed

lemma fwl_fuel_mono:
  "findWeakestLeg fuel stats st userId alg = Some r \<Longrightarrow>
   findWeakestLeg (fuel + k) stats st userId alg = Some r"
proof (induction fuel arbitrary: userId r)
  case 0
  then show ?case by simp
next
  case (Suc fuel)
  show ?case
  proof (cases "getUserById st userId")
    case None
    with Suc.prems show ?thesis by simp
  next
    case (Some u)
    show ?thesis
    proof (cases "resolveChild st (u_leftChild u)")
      case None
      with Suc.prems Some show ?thesis
        by (cases "resolveChild st (u_rightChild u)") auto
    next
      case l: (Some l)
      show ?thesis
      proof (cases "resolveChild st (u_rightChild u)")
        case None
        with Suc.prems Some l show ?thesis by auto
      next
        case r: (Some rc)
        let ?next = "if legScoreFor alg (stats (u_id l)) \<le> legScoreFor alg (stats (u_id rc))
                     then u_id l else u_id rc"
        from Suc.prems Some l r
        have "map_option deeper (findWeakestLeg fuel stats st ?next alg) = Some r"
          by (simp add: Let_def split: if_splits)
        then obtain q where q: "findWeakestLeg fuel stats st ?next alg = Some q"
          and rq: "r = deeper q"
          by auto
        from Suc.IH [OF q] have "findWeakestLeg (fuel + k) stats st ?next alg = Some q" .
        with Some l r rq show ?thesis by (auto simp: Let_def split: if_splits)
      qed
    qed
  qed
qed

lemma resolveChild_hop:
  assumes "resolveChild st c = Some x"
  shows "truthy_str c \<and> u_id x = the c"
  using assms by (auto simp: resolveChild_def getUserById_def find_Some_iff split: if_splits)

text \<open>
  Enough fuel gives an answer: when no member lies \<open>n\<close> child links below the start, the
  search returns within \<open>n + 1\<close> calls.
\<close>

lemma fwl_returns:
  "(\<And>b. \<not> hops st userId n b) \<Longrightarrow> findWeakestLeg (Suc n) stats st userId alg \<noteq> None"
proof (induction n arbitrary: userId)
  case 0
  from 0 [of userId] show ?case by simp
next
  case (Suc n)
  show ?case
  proof (cases "getUserById st userId")
    case None
    then show ?thesis by simp
  next
    case (Some u)
    show ?thesis
    proof (cases "resolveChild st (u_leftChild u)")
      case None
      with Some show ?thesis
        by (cases "resolveChild st (u_rightChild u)") simp_all
    next
      case l: (Some l)
      show ?thesis
      proof (cases "resolveChild st (u_rightChild u)")
        case None
        with Some l show ?thesis by simp
      next
        case r: (Some r)
        note hl = resolveChild_hop [OF l] and hr = resolveChild_hop [OF r]
        have nl: "\<not> hops st (u_id l) n b" for b
          using Suc.prems [of b] Some hl by auto
        have nr: "\<not> hops st (u_id r) n b" for b
          using Suc.prems [of b] Some hr by auto
        from Suc.IH [of "u_id l"] nl
        have 1: "findWeakestLeg (Suc n) stats st (u_id l) alg \<noteq> None" by blast
        from Suc.IH [of "u_id r"] nr
        have 2: "findWeakestLeg (Suc n) stats st (u_id r) alg \<noteq> None" by blast
        have "findWeakestLeg (Suc (Suc n)) stats st userId alg =
            map_option deeper (findWeakestLeg (Suc n) stats st
              (if legScoreFor alg (stats (u_id l)) \<le> legScoreFor alg (stats (u_id r))
               then u_id l else u_id r) alg)"
          using Some l r by (simp add: Let_def del: findWeakestLeg.simps(2))
            (subst findWeakestLeg.simps(2), simp add: Let_def)
        with 1 2 show ?thesis by (auto split: if_splits)
      qed
    qed
  qed
qed

text \<open>
  Claim C5 (descent to the weaker leg). At a member of the store: when the left slot
  resolves to no member the answer is the left slot (also when both are empty); when only the
  right slot resolves to no member it is the right slot; when both are occupied the search
  continues in the left child if its score is at most the right child's, in the right child
  otherwise, and the answer's depth is one more. The score is the team size, the volume, the
  maximal depth or, for \<open>balanced\<close>, the weighted sum of the four normalised figures with
  the weights 0.4, 0.3, 0.2 and 0.1, computed in double arithmetic: the comparison is between
  the two rounded sums.
  An answer always names a free slot, the right one only when the left one is occupied, and
  more fuel does not change it; in a tree with no member \<open>fuel\<close> links below the start,
  \<open>fuel + 1\<close> calls give an answer.
\<close>

theorem findWeakestLeg_descent:
  "(getUserById st userId = Some u \<and> resolveChild st (u_leftChild u) = None \<longrightarrow>
      findWeakestLeg (Suc fuel) stats st userId alg =
        Some (Some \<lparr>c_parentId = userId, c_position = left, c_depth = 1, c_score = 0\<rparr>))
   \<and> (getUserById st userId = Some u \<and> resolveChild st (u_leftChild u) \<noteq> None
        \<and> resolveChild st (u_rightChild u) = None \<longrightarrow>
      findWeakestLeg (Suc fuel) stats st userId alg =
        Some (Some \<lparr>c_parentId = userId, c_position = right, c_depth = 1, c_score = 0\<rparr>))
   \<and> (getUserById st userId = Some u \<and> resolveChild st (u_leftChild u) = Some l
        \<and> resolveChild st (u_rightChild u) = Some r \<longrightarrow>
      findWeakestLeg (Suc fuel) stats st userId alg =
        map_option deeper
          (findWeakestLeg fuel stats st
             (if legScoreFor alg (stats (u_id l)) \<le> legScoreFor alg (stats (u_id r))
              then u_id l else u_id r) alg))
   \<and> legScoreFor size_based s = ls_teamSize s
   \<and> legScoreFor volume_based s = ls_volume s
   \<and> legScoreFor depth_first s = ls_maxDepth s
   \<and> legScoreFor balanced s =
        fadd (fadd (fadd (fmul (fdiv (ls_teamSize s) 100) (fl (4 / 10)))
                         (fmul (fdiv (ls_volume s) 10000) (fl (3 / 10))))
                   (fmul (fdiv (ls_activeMembers s) 100) (fl (2 / 10))))
             (fmul (fdiv (ls_maxDepth s) 10) (fl (1 / 10)))
   \<and> (findWeakestLeg fuel stats st userId alg = Some (Some p) \<longrightarrow>
        (\<exists>parent. getUserById st (c_parentId p) = Some parent
           \<and> resolveChild st (slotOf parent (c_position p)) = None
           \<and> (c_position p = right \<longrightarrow> resolveChild st (u_leftChild parent) \<noteq> None))
        \<and> findWeakestLeg (fuel + k) stats st userId alg = Some (Some p))
   \<and> ((\<forall>b. \<not> hops st userId fuel b) \<longrightarrow>
        findWeakestLeg (Suc fuel) stats st userId alg \<noteq> None)"
proof (intro conjI impI)
  assume "getUserById st userId = Some u \<and> resolveChild st (u_leftChild u) = None"
  then show "findWeakestLeg (Suc fuel) stats st userId alg =
        Some (Some \<lparr>c_parentId = userId, c_position = left, c_depth = 1, c_score = 0\<rparr>)"
    by (cases "resolveChild st (u_rightChild u)") simp_all
next
  assume "getUserById st userId = Some u \<and> resolveChild st (u_leftChild u) \<noteq> None
        \<and> resolveChild st (u_rightChild u) = None"
  then show "findWeakestLeg (Suc fuel) stats st userId alg =
        Some (Some \<lparr>c_parentId = userId, c_position = right, c_depth = 1, c_score = 0\<rparr>)"
    by auto
next
  assume "getUserById st userId = Some u \<and> resolveChild st (u_leftChild u) = Some l
        \<and> resolveChild st (u_rightChild u) = Some r"
  then show "findWeakestLeg (Suc fuel) stats st userId alg =
        map_option deeper
          (findWeakestLeg fuel stats st
             (if legScoreFor alg (stats (u_id l)) \<le> legScoreFor alg (stats (u_id r))
              then u_id l else u_id r) alg)"
    by (simp add: Let_def)
next
  show "legScoreFor balanced s =
        fadd (fadd (fadd (fmul (fdiv (ls_teamSize s) 100) (fl (4 / 10)))
                         (fmul (fdiv (ls_volume s) 10000) (fl (3 / 10))))
                   (fmul (fdiv (ls_activeMembers s) 100) (fl (2 / 10))))
             (fmul (fdiv (ls_maxDepth s) 10) (fl (1 / 10)))"
    by (simp add: legScoreFor_def calculateLegScore_def Let_def)
next
  assume a: "findWeakestLeg fuel stats st userId alg = Some (Some p)"
  from fwl_sound [OF a]
  show "\<exists>parent. getUserById st (c_parentId p) = Some parent
           \<and> resolveChild st (slotOf parent (c_position p)) = None
           \<and> (c_position p = right \<longrightarrow> resolveChild st (u_leftChild parent) \<noteq> None)"
    by blast
  from fwl_fuel_mono [OF a]
  show "findWeakestLeg (fuel + k) stats st userId alg = Some (Some p)" .
next
  assume "\<forall>b. \<not> hops st userId fuel b"
  then show "findWeakestLeg (Suc fuel) stats st userId alg \<noteq> None"
    by (intro fwl_returns) simp
qed (simp_all add: legScoreFor_def)

text \<open>
  Witness for claim C5. In the small tree the leg of \<open>b\<close> has the strictly lower balanced
  score, so the search from the root descends to \<open>b\<close> and answers its left slot at depth 2.
  With the second answer of the statistics engine the weighted sums of the two legs are equal
  as exact numbers, 0.018, but the doubles are 0.018000000000000002 for the leg of \<open>a\<close> and
  0.018 for the leg of \<open>b\<close>: the search descends to \<open>b\<close> as well.
\<close>

theorem findWeakestLeg_descent_witness:
  "findWeakestLeg 1 example_stats small_tree ''b'' balanced =
     Some (Some \<lparr>c_parentId = ''b'', c_position = left, c_depth = 1, c_score = 0\<rparr>)
   \<and> findWeakestLeg 1 example_stats small_tree ''a'' balanced =
     Some (Some \<lparr>c_parentId = ''a'', c_position = right, c_depth = 1, c_score = 0\<rparr>)
   \<and> legScoreFor balanced (example_stats ''b'') < legScoreFor balanced (example_stats ''a'')
   \<and> findWeakestLeg 2 example_stats small_tree ''r'' balanced =
     Some (Some \<lparr>c_parentId = ''b'', c_position = left, c_depth = 2, c_score = 0\<rparr>)
   \<and> findWeakestLeg 7 example_stats small_tree ''r'' balanced =
     Some (Some \<lparr>c_parentId = ''b'', c_position = left, c_depth = 2, c_score = 0\<rparr>)
   \<and> findWeakestLeg (Suc 3) example_stats small_tree ''r'' size_based \<noteq> None
   \<and> legScoreFor balanced (close_stats ''a'') = 1297036692682703 / 72057594037927936
   \<and> legScoreFor balanced (close_stats ''b'') = 5188146770730811 / 288230376151711744
   \<and> legScoreFor balanced (close_stats ''b'') < legScoreFor balanced (close_stats ''a'')
   \<and> findWeakestLeg 2 close_stats small_tree ''r'' balanced =
     Some (Some \<lparr>c_parentId = ''b'', c_position = left, c_depth = 2, c_score = 0\<rparr>)"
proof -
  let ?r = "tree_user ''r'' (Some ''a'') (Some ''b'')"
  let ?a = "tree_user ''a'' (Some ''c'') None"
  let ?b = "tree_user ''b'' None None"
  let ?c = "tree_user ''c'' None None"
  have g: "getUserById small_tree ''r'' = Some ?r" "getUserById small_tree ''a'' = Some ?a"
    "getUserById small_tree ''b'' = Some ?b" "getUserById small_tree ''c'' = Some ?c"
    by code_simp+
  have nh: "\<forall>x. \<not> hops small_tree ''r'' 3 x"
    by (simp add: eval_nat_numeral g tree_user_def truthy_str_def)
  note tn = findWeakestLeg_descent [where st = small_tree and userId = "''r''" and fuel = 3
      and stats = example_stats and alg = size_based]
  from tn nh have r4: "findWeakestLeg (Suc 3) example_stats small_tree ''r'' size_based \<noteq> None"
    by blast
  have ch: "resolveChild small_tree (u_leftChild ?r) = Some ?a"
    "resolveChild small_tree (u_rightChild ?r) = Some ?b"
    "resolveChild small_tree (u_leftChild ?a) = Some ?c"
    "resolveChild small_tree (u_rightChild ?a) = None"
    "resolveChild small_tree (u_leftChild ?b) = None"
    by code_simp+
  have ids: "u_id ?a = ''a''" "u_id ?b = ''b''"
    by (simp_all add: tree_user_def example_user_def)
  have sc: "legScoreFor balanced (example_stats ''b'') < legScoreFor balanced (example_stats ''a'')"
    by code_simp
  have sa: "legScoreFor balanced (close_stats ''a'') = 1297036692682703 / 72057594037927936"
    by code_simp
  have sb: "legScoreFor balanced (close_stats ''b'') = 5188146770730811 / 288230376151711744"
    by code_simp
  from sa sb
  have cl: "legScoreFor balanced (close_stats ''b'') < legScoreFor balanced (close_stats ''a'')"
    by simp
  note tb = findWeakestLeg_descent [where st = small_tree and userId = "''b''" and u = ?b
      and fuel = 0 and stats = example_stats and alg = balanced]
  note ta = findWeakestLeg_descent [where st = small_tree and userId = "''a''" and u = ?a
      and fuel = 0 and stats = example_stats and alg = balanced]
  note tr = findWeakestLeg_descent [where st = small_tree and userId = "''r''" and u = ?r
      and l = ?a and r = ?b and fuel = 1 and stats = example_stats and alg = balanced]
  from tb g ch have b1: "findWeakestLeg 1 example_stats small_tree ''b'' balanced =
     Some (Some \<lparr>c_parentId = ''b'', c_position = left, c_depth = 1, c_score = 0\<rparr>)"
    by simp
  from ta g ch have a1: "findWeakestLeg 1 example_stats small_tree ''a'' balanced =
     Some (Some \<lparr>c_parentId = ''a'', c_position = right, c_depth = 1, c_score = 0\<rparr>)"
    by simp
  from tr g ch sc b1 have r2: "findWeakestLeg 2 example_stats small_tree ''r'' balanced =
     Some (Some \<lparr>c_parentId = ''b'', c_position = left, c_depth = 2, c_score = 0\<rparr>)"
    by (simp add: ids deeper_def numeral_2_eq_2)
  note tm = findWeakestLeg_descent [where st = small_tree and userId = "''r''"
      and fuel = 2 and stats = example_stats and alg = balanced and k = 5
      and p = "\<lparr>c_parentId = ''b'', c_position = left, c_depth = 2, c_score = 0\<rparr>"]
  from tm r2 have r7: "findWeakestLeg 7 example_stats small_tree ''r'' balanced =
     Some (Some \<lparr>c_parentId = ''b'', c_position = left, c_depth = 2, c_score = 0\<rparr>)"
    by simp
  note cb = findWeakestLeg_descent [where st = small_tree and userId = "''b''" and u = ?b
      and fuel = 0 and stats = close_stats and alg = balanced]
  note cr = findWeakestLeg_descent [where st = small_tree and userId = "''r''" and u = ?r
      and l = ?a and r = ?b and fuel = 1 and stats = close_stats and alg = balanced]
  from cb g ch have c1: "findWeakestLeg 1 close_stats small_tree ''b'' balanced =
     Some (Some \<lparr>c_parentId = ''b'', c_position = left, c_depth = 1, c_score = 0\<rparr>)"
    by simp
  from cr g ch cl c1 have c2: "findWeakestLeg 2 close_stats small_tree ''r'' balanced =
     Some (Some \<lparr>c_parentId = ''b'', c_position = left, c_depth = 2, c_score = 0\<rparr>)"
    by (simp add: ids deeper_def numeral_2_eq_2)
  from b1 a1 sc r2 r7 r4 sa sb cl c2 show ?thesis by simp
qed

section \<open>Properties of the classic engine\<close>

subsection \<open>What a distribution may change\<close>

lemma memberStep_refl: "memberStep S u u"
  by (simp add: memberStep_def)

lemma memberStep_trans:
  "memberStep S u v \<Longrightarrow> memberStep T v w \<Longrightarrow> memberStep (S \<union> T) u w"
  unfolding memberStep_def
  by (metis (no_types, lifting) Un_iff order_trans user.surjective user.update_convs(11) user.select_convs(1))


lemma memberStep_fields:
  assumes "memberStep S u v"
  shows "u_id v = u_id u" "u_email v = u_email u" "u_sponsorId v = u_sponsorId u"
    "u_isActive v = u_isActive u" "u_careerLevel v = u_careerLevel u" "u_fullName v = u_fullName u"
proof -
  from assms have "v = u\<lparr>u_wallet := u_wallet v\<rparr>" by (simp add: memberStep_def)
  then have e: "u_id v = u_id (u\<lparr>u_wallet := u_wallet v\<rparr>)"
    "u_email v = u_email (u\<lparr>u_wallet := u_wallet v\<rparr>)"
    "u_sponsorId v = u_sponsorId (u\<lparr>u_wallet := u_wallet v\<rparr>)"
    "u_isActive v = u_isActive (u\<lparr>u_wallet := u_wallet v\<rparr>)"
    "u_careerLevel v = u_careerLevel (u\<lparr>u_wallet := u_wallet v\<rparr>)"
    "u_fullName v = u_fullName (u\<lparr>u_wallet := u_wallet v\<rparr>)"
    by simp_all
  from e show "u_id v = u_id u" "u_email v = u_email u" "u_sponsorId v = u_sponsorId u"
    "u_isActive v = u_isActive u" "u_careerLevel v = u_careerLevel u" "u_fullName v = u_fullName u"
    by simp_all
qed

lemma paysOnly_refl: "paysOnly S db db"
  by (simp add: paysOnly_def list_all2_refl memberStep_refl)

lemma users_steps_trans:
  "list_all2 (memberStep S) xs ys \<Longrightarrow> list_all2 (memberStep T) ys zs \<Longrightarrow>
   list_all2 (memberStep (S \<union> T)) xs zs"
proof (induction xs ys arbitrary: zs rule: list_all2_induct)
  case Nil
  then show ?case by simp
next
  case (Cons x xs y ys)
  from Cons.prems obtain z zs' where z: "zs = z # zs'" "memberStep T y z"
    "list_all2 (memberStep T) ys zs'"
    by (cases zs) auto
  with Cons show ?case
    by (auto intro: memberStep_trans)
qed

lemma paysOnly_trans:
  assumes "paysOnly S db db'" "paysOnly T db' db''"
  shows "paysOnly (S \<union> T) db db''"
proof -
  let ?a = "db_transactions db" and ?b = "db_transactions db'" and ?c = "db_transactions db''"
  from assms have u: "list_all2 (memberStep (S \<union> T)) (db_users db) (db_users db'')"
    by (auto simp: paysOnly_def intro: users_steps_trans)
  from assms have ab: "take (length ?a) ?b = ?a"
    and bc: "take (length ?b) ?c = ?b"
    and nb: "\<forall>t \<in> set (drop (length ?a) ?b). tx_userId t \<in> S \<and> tx_type t = commission"
    and nc: "\<forall>t \<in> set (drop (length ?b) ?c). tx_userId t \<in> T \<and> tx_type t = commission"
    by (simp_all add: paysOnly_def)
  from ab have b: "?b = ?a @ drop (length ?a) ?b"
    by (metis append_take_drop_id)
  from bc have c: "?c = ?b @ drop (length ?b) ?c"
    by (metis append_take_drop_id)
  from b c have c': "?c = ?a @ (drop (length ?a) ?b @ drop (length ?b) ?c)"
    by (metis append.assoc)
  then have d: "drop (length ?a) ?c = drop (length ?a) ?b @ drop (length ?b) ?c"
    by (metis append_eq_conv_conj)
  from c' have t: "take (length ?a) ?c = ?a"
    by (metis append_eq_conv_conj)
  from nb nc have "\<forall>t \<in> set (drop (length ?a) ?c). tx_userId t \<in> S \<union> T \<and> tx_type t = commission"
    unfolding d by auto
  with u t show ?thesis by (simp add: paysOnly_def)
qed


lemma lookup_step:
  assumes "list_all2 (memberStep S) st st'"
  shows "rel_option (memberStep S) (getUserById st i) (getUserById st' i)"
  using assms
proof (induction st st' rule: list_all2_induct)
  case Nil
  then show ?case by (simp add: getUserById_def)
next
  case (Cons x xs y ys)
  from memberStep_fields(1) [OF Cons.hyps(1)] have "u_id y = u_id x" .
  with Cons show ?case
    by (simp add: getUserById_def)
qed


lemma creditWallet_step:
  assumes "\<And>w. balance w \<le> balance (g w)"
  shows "list_all2 (memberStep {i}) st (creditWallet st i g)"
  by (induction st) (auto simp: creditWallet_def memberStep_def assms list_all2_refl)


lemma credit_paysOnly:
  assumes "\<And>w. balance w \<le> balance (g w)"
  shows "paysOnly {i} db (credit db i g)"
  by (simp add: paysOnly_def credit_def creditWallet_step assms)

lemma getUserById_id: "getUserById st i = Some u \<Longrightarrow> u_id u = i"
  by (auto simp: getUserById_def find_Some_iff)

lemma creditWallet_absent: "getUserById st i = None \<Longrightarrow> creditWallet st i g = st"
  by (induction st) (auto simp: creditWallet_def getUserById_def split: if_splits)

lemma creditWallet_twice:
  "creditWallet (creditWallet st i f) i h = creditWallet st i (\<lambda>w. h (f w))"
  by (induction st) (auto simp: creditWallet_def)

lemma creditWallet_stored_step:
  assumes "getUserById st i = Some m" "balance (u_wallet m) \<le> balance w'"
  shows "list_all2 (memberStep {i}) st (creditWallet st i (\<lambda>w. w'))"
  using assms
  by (induction st)
    (auto simp: creditWallet_def getUserById_def memberStep_def list_all2_refl split: if_splits)

lemma updateUserWallet_users:
  "db_users (updateUserWallet db i a ty) =
     creditWallet (db_users db) i
       (\<lambda>w. if ty = deposit \<or> ty = commission \<or> ty = bonus
             then w\<lparr>balance := balance w + a, totalEarnings := totalEarnings w + a\<rparr>
             else if ty = withdrawal then w\<lparr>balance := balance w - a\<rparr>
             else w)"
  by (cases "getUserById (db_users db) i")
    (simp_all add: updateUserWallet_def credit_def creditWallet_absent)

lemma updateUserWallet_paysOnly:
  assumes "0 \<le> a" "ty = commission \<or> ty = bonus"
  shows "paysOnly {i} db (updateUserWallet db i a ty)"
proof (cases "getUserById (db_users db) i")
  case None
  then show ?thesis by (simp add: updateUserWallet_def paysOnly_refl)
next
  case (Some u)
  with assms show ?thesis
    by (auto simp: updateUserWallet_def intro!: credit_paysOnly)
qed

lemma createTransaction_transactions:
  "db_transactions (createTransaction db t) =
     (if tx_status t = completed \<and> db_adapter db = JsonFile then db_transactions db
      else db_transactions db @ [t])"
  by (cases "db_adapter db")
    (auto simp: createTransaction_def Let_def updateUserWallet_def credit_def split: option.splits)

lemma createTransaction_users:
  "tx_status t = completed \<Longrightarrow>
   db_users (createTransaction db t) =
     db_users (updateUserWallet db (tx_userId t) (tx_amount t) (tx_type t))"
  by (cases "db_adapter db")
    (auto simp: createTransaction_def Let_def updateUserWallet_def credit_def split: option.splits)

lemma createTransaction_adapter: "db_adapter (createTransaction db t) = db_adapter db"
  by (cases "db_adapter db")
    (auto simp: createTransaction_def Let_def updateUserWallet_def credit_def split: option.splits)


lemma updateWalletOf_transactions: "db_transactions (updateWalletOf db m g) = db_transactions db"
  by (cases "db_adapter db") (simp_all add: updateWalletOf_def credit_def)

text \<open>
  A payout to a member that a lookup by id has returned: a completed transaction of a
  non-negative amount, then the engine's own addition to the wallet. On both databases only
  the wallet of that member changes, and its balance does not go down.
\<close>

lemma pay_users:
  assumes "ty = commission \<or> ty = bonus"
  shows "db_users (updateWalletOf (createTransaction db
        \<lparr>tx_userId = u_id m, tx_type = ty, tx_amount = a, tx_description = d,
         tx_status = completed\<rparr>) m g) =
     creditWallet (db_users db) (u_id m)
       (case db_adapter db of
          InMemory \<Rightarrow>
            (\<lambda>w. g (w\<lparr>balance := balance w + a, totalEarnings := totalEarnings w + a\<rparr>))
        | JsonFile \<Rightarrow> (\<lambda>w. g (u_wallet m)))"
  using assms
  by (cases "db_adapter db")
    (auto simp: updateWalletOf_def credit_def createTransaction_adapter createTransaction_users
      updateUserWallet_users creditWallet_twice)

lemma pay_users_step:
  assumes "0 \<le> a" "\<And>w. balance w \<le> balance (g w)"
    "getUserById (db_users db) (u_id m) = Some m" "ty = commission \<or> ty = bonus"
  shows "list_all2 (memberStep {u_id m}) (db_users db)
     (db_users (updateWalletOf (createTransaction db
        \<lparr>tx_userId = u_id m, tx_type = ty, tx_amount = a, tx_description = d,
         tx_status = completed\<rparr>) m g))"
proof (cases "db_adapter db")
  case InMemory
  have "balance w \<le> balance (g (w\<lparr>balance := balance w + a,
      totalEarnings := totalEarnings w + a\<rparr>))" for w
    using assms(1) assms(2) [of "w\<lparr>balance := balance w + a,
      totalEarnings := totalEarnings w + a\<rparr>"] by simp
  then show ?thesis
    by (simp add: pay_users [OF assms(4)] InMemory creditWallet_step)
next
  case JsonFile
  from assms(3) assms(2) [of "u_wallet m"] show ?thesis
    by (simp add: pay_users [OF assms(4)] JsonFile creditWallet_stored_step)
qed

lemma pay_paysOnly:
  assumes "0 \<le> a" "\<And>w. balance w \<le> balance (g w)"
    "getUserById (db_users db) (u_id m) = Some m"
  shows "paysOnly {u_id m} db
     (updateWalletOf (createTransaction db
        \<lparr>tx_userId = u_id m, tx_type = commission, tx_amount = a, tx_description = d,
         tx_status = completed\<rparr>) m g)"
  using pay_users_step [OF assms, of commission d]
  by (simp add: paysOnly_def updateWalletOf_transactions createTransaction_transactions)

lemma payPassive_paysOnly:
  "getUserById (db_users db) (u_id sponsor) = Some sponsor \<Longrightarrow>
   paysOnly {u_id sponsor} db (payPassive amt u sponsor levels db)"
  by (auto simp: payPassive_def Let_def paysOnly_refl intro!: pay_paysOnly)

lemma passiveWalk_step:
  assumes "list_all2 (memberStep S) st st'"
  shows "passiveWalk st' userId n = passiveWalk st userId n"
proof (induction n arbitrary: userId)
  case 0
  show ?case by simp
next
  case (Suc n)
  note l = lookup_step [OF assms]
  show ?case
  proof (cases "getUserById st userId")
    case None
    with l [of userId] show ?thesis by (cases "getUserById st' userId") auto
  next
    case (Some u)
    with l [of userId] obtain u' where u': "getUserById st' userId = Some u'" "memberStep S u u'"
      by (cases "getUserById st' userId") auto
    note f = memberStep_fields [OF u'(2)]
    show ?thesis
    proof (cases "truthy_str (u_sponsorId u)")
      case False
      with Some u' f show ?thesis by simp
    next
      case True
      show ?thesis
      proof (cases "getUserById st (the (u_sponsorId u))")
        case None
        with l [of "the (u_sponsorId u)"] have "getUserById st' (the (u_sponsorId u)) = None"
          by (cases "getUserById st' (the (u_sponsorId u))") auto
        with None Some u' f True show ?thesis by simp
      next
        case sp: (Some s)
        with l [of "the (u_sponsorId u)"] obtain s' where
          s': "getUserById st' (the (u_sponsorId u)) = Some s'" "memberStep S s s'"
          by (cases "getUserById st' (the (u_sponsorId u))") auto
        note g = memberStep_fields [OF s'(2)]
        from Some u' f True sp s' g Suc.IH [of "u_id s"] show ?thesis
          by simp
      qed
    qed
  qed
qed

lemma passive_paysOnly:
  "paysOnly (set (passiveWalk (db_users db) userId levels)) db
     (distributePassiveIncome amt userId levels db)"
proof (induction levels arbitrary: userId db)
  case 0
  show ?case by (simp add: paysOnly_refl)
next
  case (Suc n)
  show ?case
  proof (cases "getUserById (db_users db) userId")
    case None
    then show ?thesis by (simp add: paysOnly_refl)
  next
    case (Some u)
    show ?thesis
    proof (cases "truthy_str (u_sponsorId u)")
      case False
      with Some show ?thesis by (simp add: paysOnly_refl)
    next
      case True
      show ?thesis
      proof (cases "getUserById (db_users db) (the (u_sponsorId u))")
        case None
        with Some True show ?thesis by (simp add: paysOnly_refl)
      next
        case sp: (Some s)
        show ?thesis
        proof (cases "u_isActive s \<and> cl_passiveIncomeRate (u_careerLevel s) > 0")
          case False
          with Some True sp show ?thesis by (auto simp: paysOnly_refl)
        next
          case act: True
          let ?db1 = "payPassive amt u s (Suc n) db"
          from sp getUserById_id [OF sp] have "getUserById (db_users db) (u_id s) = Some s"
            by simp
          then have p1: "paysOnly {u_id s} db ?db1" by (rule payPassive_paysOnly)
          then have "list_all2 (memberStep {u_id s}) (db_users db) (db_users ?db1)"
            by (simp add: paysOnly_def)
          from passiveWalk_step [OF this]
          have w: "passiveWalk (db_users ?db1) (u_id s) n = passiveWalk (db_users db) (u_id s) n" .
          from Suc.IH [of ?db1 "u_id s"] w
          have p2: "paysOnly (set (passiveWalk (db_users db) (u_id s) n)) ?db1
              (distributePassiveIncome amt (u_id s) n ?db1)"
            by simp
          from paysOnly_trans [OF p1 p2] Some True sp act show ?thesis
            by simp
        qed
      qed
    qed
  qed
qed

lemma binaryCallback_paysOnly:
  "getUserById (db_users db) (u_id s) = Some s \<Longrightarrow>
   paysOnly {u_id s} db (snd (binaryCallback amt s level db))"
  by (auto simp: binaryCallback_def Let_def paysOnly_refl intro!: pay_paysOnly)

lemma binaryCallback_continue:
  "fst (binaryCallback amt s level db) = (level \<le> 7 \<and> u_isActive s)"
  by (auto simp: binaryCallback_def Let_def)

lemma binaryCallback_stop:
  "\<not> fst (binaryCallback amt s level db) \<Longrightarrow> snd (binaryCallback amt s level db) = db"
  by (auto simp: binaryCallback_def Let_def)

lemma binaryWalk_step:
  assumes "list_all2 (memberStep S) st st'"
  shows "binaryWalk st' userId level = binaryWalk st userId level"
proof (induction k \<equiv> "8 - level" arbitrary: level userId)
  case 0
  then have "\<not> level \<le> 7" by simp
  then show ?case by (simp add: binaryWalk.simps)
next
  case (Suc k)
  then have lv: "level \<le> 7" and k: "k = 8 - (level + 1)" by simp_all
  note l = lookup_step [OF assms]
  note unf = binaryWalk.simps [of st userId level] binaryWalk.simps [of st' userId level]
  show ?case
  proof (cases "getUserById st userId")
    case None
    with l [of userId] have "getUserById st' userId = None"
      by (cases "getUserById st' userId") auto
    with None show ?thesis by (simp add: unf)
  next
    case (Some u)
    with l [of userId] obtain u' where u': "getUserById st' userId = Some u'" "memberStep S u u'"
      by (cases "getUserById st' userId") auto
    note f = memberStep_fields [OF u'(2)]
    show ?thesis
    proof (cases "truthy_str (u_sponsorId u)")
      case False
      with Some u' f show ?thesis by (simp add: unf)
    next
      case True
      show ?thesis
      proof (cases "getUserById st (the (u_sponsorId u))")
        case None
        with l [of "the (u_sponsorId u)"] have "getUserById st' (the (u_sponsorId u)) = None"
          by (cases "getUserById st' (the (u_sponsorId u))") auto
        with None Some u' f True show ?thesis by (simp add: unf)
      next
        case sp: (Some s)
        with l [of "the (u_sponsorId u)"] obtain s' where
          s': "getUserById st' (the (u_sponsorId u)) = Some s'" "memberStep S s s'"
          by (cases "getUserById st' (the (u_sponsorId u))") auto
        note g = memberStep_fields [OF s'(2)]
        from Some u' f True sp s' g Suc.hyps(1) [OF k, of "u_id s"] show ?thesis
          by (simp add: unf)
      qed
    qed
  qed
qed

lemma traverse_paysOnly:
  "paysOnly (set (binaryWalk (db_users db) userId level)) db
     (traverseUpline (binaryCallback amt) userId level db)"
proof (induction k \<equiv> "8 - level" arbitrary: level userId db)
  case 0
  then have "\<not> level \<le> 7" by simp
  then show ?case by (simp add: traverseUpline.simps binaryWalk.simps paysOnly_refl)
next
  case (Suc k)
  then have lv: "level \<le> 7" and k: "k = 8 - (level + 1)" by simp_all
  note w = binaryWalk.simps [of "db_users db" userId level]
  note t = traverseUpline.simps [of "binaryCallback amt" userId level db]
  show ?case
  proof (cases "getUserById (db_users db) userId")
    case None
    then have "traverseUpline (binaryCallback amt) userId level db = db"
      by (subst t) simp
    then show ?thesis by (simp add: paysOnly_refl)
  next
    case (Some u)
    show ?thesis
    proof (cases "truthy_str (u_sponsorId u)")
      case False
      with Some have "traverseUpline (binaryCallback amt) userId level db = db"
        by (subst t) simp
      then show ?thesis by (simp add: paysOnly_refl)
    next
      case True
      show ?thesis
      proof (cases "getUserById (db_users db) (the (u_sponsorId u))")
        case None
        with Some True have "traverseUpline (binaryCallback amt) userId level db = db"
          by (subst t) simp
        then show ?thesis by (simp add: paysOnly_refl)
      next
        case sp: (Some s)
        show ?thesis
        proof (cases "u_isActive s")
          case False
          with Some True sp lv have "traverseUpline (binaryCallback amt) userId level db = db"
            by (subst t) (simp add: binaryCallback_continue binaryCallback_stop)
          then show ?thesis by (simp add: paysOnly_refl)
        next
          case act: True
          let ?db1 = "snd (binaryCallback amt s level db)"
          from sp getUserById_id [OF sp] have "getUserById (db_users db) (u_id s) = Some s"
            by simp
          then have p1: "paysOnly {u_id s} db ?db1" by (rule binaryCallback_paysOnly)
          then have "list_all2 (memberStep {u_id s}) (db_users db) (db_users ?db1)"
            by (simp add: paysOnly_def)
          from binaryWalk_step [OF this]
          have ws: "binaryWalk (db_users ?db1) (u_id s) (level + 1)
                     = binaryWalk (db_users db) (u_id s) (level + 1)" .
          from Suc.hyps(1) [OF k, of ?db1 "u_id s"] ws
          have p2: "paysOnly (set (binaryWalk (db_users db) (u_id s) (level + 1))) ?db1
              (traverseUpline (binaryCallback amt) (u_id s) (level + 1) ?db1)"
            by simp
          from Some True sp act lv
          have r: "traverseUpline (binaryCallback amt) userId level db =
              traverseUpline (binaryCallback amt) (u_id s) (level + 1) ?db1"
            by (subst t) (simp add: binaryCallback_continue)
          from Some True sp act lv
          have wk: "binaryWalk (db_users db) userId level =
              u_id s # binaryWalk (db_users db) (u_id s) (level + 1)"
            by (subst w) simp
          from paysOnly_trans [OF p1 p2] show ?thesis
            by (simp add: r wk)
        qed
      qed
    qed
  qed
qed

lemma binary_paysOnly:
  "paysOnly (set (binaryWalk (db_users db) userId 1)) db (distributeBinaryCommissions amt userId db)"
  by (simp add: distributeBinaryCommissions_def traverse_paysOnly)

lemma passiveWalk_active:
  "i \<in> set (passiveWalk st userId n) \<Longrightarrow>
   \<exists>s. getUserById st i = Some s \<and> u_isActive s \<and> 0 < cl_passiveIncomeRate (u_careerLevel s)"
proof (induction n arbitrary: userId)
  case 0
  then show ?case by simp
next
  case (Suc n)
  from Suc.prems obtain u where u: "getUserById st userId = Some u"
    by (cases "getUserById st userId") auto
  from Suc.prems u have t: "truthy_str (u_sponsorId u)"
    by (auto split: if_splits)
  from Suc.prems u t obtain s where s: "getUserById st (the (u_sponsorId u)) = Some s"
    by (cases "getUserById st (the (u_sponsorId u))") auto
  from Suc.prems u t s have a: "u_isActive s \<and> 0 < cl_passiveIncomeRate (u_careerLevel s)"
    by (auto split: if_splits)
  from Suc.prems u t s a have i: "i = u_id s \<or> i \<in> set (passiveWalk st (u_id s) n)"
    by auto
  from getUserById_id [OF s] have "u_id s = the (u_sponsorId u)" .
  with s a i Suc.IH show ?case by auto
qed

subsection \<open>The passive-income walk and the depth bonus\<close>

text \<open>
  Claim C2 as amended. The passive-income distribution goes from a member to the sponsor for
  at most \<open>levels\<close> (7) steps, and only while the sponsor is in the store, active and has a
  positive passive rate: it then goes on from that sponsor, whether the payout was made or
  not (it is made when the amount is positive). At a sponsor who is inactive or has rate 0 it
  stops and the database stays as it is, so nobody above such a sponsor is visited or paid.
  Only the wallets of the members on this walk change, only they receive transactions, and
  every member on the walk is active with a positive rate. The depth bonus behaves alike: it
  stops at the first inactive sponsor and pays only the active sponsors below.
\<close>

theorem passive_income_walk:
  "paysOnly (set (passiveWalk (db_users db) userId levels)) db
     (distributePassiveIncome amt userId levels db)
   \<and> paysOnly (set (binaryWalk (db_users db) userId 1)) db
       (distributeBinaryCommissions amt userId db)
   \<and> (\<forall>i \<in> set (passiveWalk (db_users db) userId levels).
         \<exists>s. getUserById (db_users db) i = Some s \<and> u_isActive s
              \<and> 0 < cl_passiveIncomeRate (u_careerLevel s))
   \<and> (getUserById (db_users db) userId = Some u \<and> truthy_str (u_sponsorId u)
        \<and> getUserById (db_users db) (the (u_sponsorId u)) = Some sponsor \<longrightarrow>
        (\<not> (u_isActive sponsor \<and> 0 < cl_passiveIncomeRate (u_careerLevel sponsor)) \<longrightarrow>
           passiveWalk (db_users db) userId levels = []
           \<and> distributePassiveIncome amt userId levels db = db)
        \<and> (\<not> u_isActive sponsor \<longrightarrow>
             binaryWalk (db_users db) userId 1 = []
             \<and> distributeBinaryCommissions amt userId db = db)
        \<and> (u_isActive sponsor \<and> 0 < cl_passiveIncomeRate (u_careerLevel sponsor) \<longrightarrow>
             distributePassiveIncome amt userId (Suc n) db =
               distributePassiveIncome amt (u_id sponsor) n (payPassive amt u sponsor (Suc n) db)
             \<and> (passiveAmountFor amt sponsor (Suc n) \<le> 0 \<longrightarrow>
                  payPassive amt u sponsor (Suc n) db = db)))"
proof (intro conjI ballI impI)
  show "paysOnly (set (passiveWalk (db_users db) userId levels)) db
     (distributePassiveIncome amt userId levels db)"
    by (rule passive_paysOnly)
  show "paysOnly (set (binaryWalk (db_users db) userId 1)) db
       (distributeBinaryCommissions amt userId db)"
    by (rule binary_paysOnly)
next
  fix i assume "i \<in> set (passiveWalk (db_users db) userId levels)"
  then show "\<exists>s. getUserById (db_users db) i = Some s \<and> u_isActive s
              \<and> 0 < cl_passiveIncomeRate (u_careerLevel s)"
    by (rule passiveWalk_active)
next
  assume a: "getUserById (db_users db) userId = Some u \<and> truthy_str (u_sponsorId u)
        \<and> getUserById (db_users db) (the (u_sponsorId u)) = Some sponsor"
    and b: "\<not> (u_isActive sponsor \<and> 0 < cl_passiveIncomeRate (u_careerLevel sponsor))"
  from a b show "passiveWalk (db_users db) userId levels = []"
    by (cases levels) auto
  from a b show "distributePassiveIncome amt userId levels db = db"
    by (cases levels) auto
next
  assume a: "getUserById (db_users db) userId = Some u \<and> truthy_str (u_sponsorId u)
        \<and> getUserById (db_users db) (the (u_sponsorId u)) = Some sponsor"
    and b: "\<not> u_isActive sponsor"
  from a b show "binaryWalk (db_users db) userId 1 = []"
    by (subst binaryWalk.simps) simp
  from a b show "distributeBinaryCommissions amt userId db = db"
    unfolding distributeBinaryCommissions_def
    by (subst traverseUpline.simps) (simp add: binaryCallback_continue binaryCallback_stop)
next
  assume a: "getUserById (db_users db) userId = Some u \<and> truthy_str (u_sponsorId u)
        \<and> getUserById (db_users db) (the (u_sponsorId u)) = Some sponsor"
    and b: "u_isActive sponsor \<and> 0 < cl_passiveIncomeRate (u_careerLevel sponsor)"
  from a b show "distributePassiveIncome amt userId (Suc n) db =
      distributePassiveIncome amt (u_id sponsor) n (payPassive amt u sponsor (Suc n) db)"
    by simp
next
  assume "passiveAmountFor amt sponsor (Suc n) \<le> 0"
  then show "payPassive amt u sponsor (Suc n) db = db"
    by (simp add: payPassive_def Let_def)
qed

text \<open>
  Counterexample to claim C2 as stated (sponsors above an inactive sponsor are still paid):
  \<open>u\<close> has the inactive sponsor \<open>s1\<close>, whose sponsor \<open>s2\<close> is active with passive rate
  0.5. The distribution from \<open>u\<close> changes nothing: \<open>s2\<close> is not paid.
\<close>

theorem passive_income_not_past_inactive:
  "map_option u_sponsorId (getUserById (db_users inactive_chain_db) ''u'') = Some (Some ''s1'')
   \<and> map_option u_isActive (getUserById (db_users inactive_chain_db) ''s1'') = Some False
   \<and> map_option u_sponsorId (getUserById (db_users inactive_chain_db) ''s1'') = Some (Some ''s2'')
   \<and> map_option u_isActive (getUserById (db_users inactive_chain_db) ''s2'') = Some True
   \<and> map_option (\<lambda>s. cl_passiveIncomeRate (u_careerLevel s))
        (getUserById (db_users inactive_chain_db) ''s2'') = Some (1 / 2)
   \<and> distributePassiveIncome 50 ''u'' 7 inactive_chain_db = inactive_chain_db
   \<and> balanceOf (distributePassiveIncome 50 ''u'' 7 inactive_chain_db) ''s2'' = 0
   \<and> db_transactions (distributePassiveIncome 50 ''u'' 7 inactive_chain_db) = []"
  by code_simp

text \<open>
  Witness for claim C2. With everybody active the walk from \<open>u\<close> pays \<open>s1\<close>, \<open>s2\<close> and the admin; with
  \<open>s1\<close> inactive neither distribution changes the database; with the amount 0 the walk goes
  on from \<open>s1\<close> without paying.
\<close>

theorem passive_income_walk_witness:
  "passiveWalk (db_users active_chain_db) ''u'' 7 = [''s1'', ''s2'', ''admin-001'']
   \<and> paysOnly {''s1'', ''s2'', ''admin-001''} active_chain_db
        (distributePassiveIncome 50 ''u'' 7 active_chain_db)
   \<and> map tx_userId (db_transactions (distributePassiveIncome 50 ''u'' 7 active_chain_db)) =
        [''s1'', ''s2'', ''admin-001'']
   \<and> passiveWalk (db_users inactive_chain_db) ''u'' 7 = []
   \<and> distributePassiveIncome 50 ''u'' 7 inactive_chain_db = inactive_chain_db
   \<and> distributeBinaryCommissions 250 ''u'' inactive_chain_db = inactive_chain_db
   \<and> distributePassiveIncome 0 ''u'' 7 active_chain_db = active_chain_db
   \<and> distributePassiveIncome 0 ''u'' 7 active_chain_db =
       distributePassiveIncome 0 ''s1'' 6 active_chain_db"
proof -
  let ?u = "classic_member ''u'' (Some ''s1'') True 0"
  let ?s1 = "classic_member ''s1'' (Some ''s2'') False (1 / 2)"
  have w: "passiveWalk (db_users active_chain_db) ''u'' 7 = [''s1'', ''s2'', ''admin-001'']"
    by code_simp
  have tx: "map tx_userId (db_transactions (distributePassiveIncome 50 ''u'' 7 active_chain_db)) =
        [''s1'', ''s2'', ''admin-001'']"
    by code_simp
  have z: "distributePassiveIncome 0 ''u'' 7 active_chain_db = active_chain_db"
    by code_simp
  have g: "getUserById (db_users inactive_chain_db) ''u'' = Some ?u"
    "getUserById (db_users inactive_chain_db) ''s1'' = Some ?s1"
    by code_simp+
  have f: "truthy_str (u_sponsorId ?u)" "the (u_sponsorId ?u) = ''s1''" "\<not> u_isActive ?s1"
    by code_simp+
  note a = passive_income_walk [where db = active_chain_db and userId = "''u''" and levels = 7
      and amt = 50]
  note i = passive_income_walk [where db = inactive_chain_db and userId = "''u''" and levels = 7
      and amt = 50 and u = ?u and sponsor = ?s1]
  note b = passive_income_walk [where db = inactive_chain_db and userId = "''u''"
      and amt = 250 and u = ?u and sponsor = ?s1]
  from a w have p: "paysOnly {''s1'', ''s2'', ''admin-001''} active_chain_db
        (distributePassiveIncome 50 ''u'' 7 active_chain_db)"
    by simp
  from i g f have s: "passiveWalk (db_users inactive_chain_db) ''u'' 7 = []"
    "distributePassiveIncome 50 ''u'' 7 inactive_chain_db = inactive_chain_db"
    by simp_all
  from b g f have d: "distributeBinaryCommissions 250 ''u'' inactive_chain_db = inactive_chain_db"
    by simp
  let ?a1 = "classic_member ''s1'' (Some ''s2'') True (1 / 2)"
  have ga: "getUserById (db_users active_chain_db) ''u'' = Some ?u"
    "getUserById (db_users active_chain_db) ''s1'' = Some ?a1"
    by code_simp+
  have fa: "u_isActive ?a1" "0 < cl_passiveIncomeRate (u_careerLevel ?a1)" "u_id ?a1 = ''s1''"
    "passiveAmountFor 0 ?a1 (Suc 6) \<le> 0"
    by code_simp+
  note c = passive_income_walk [where db = active_chain_db and userId = "''u''"
      and amt = 0 and u = ?u and sponsor = ?a1 and n = 6]
  from c ga f fa have st: "distributePassiveIncome 0 ''u'' (Suc 6) active_chain_db =
       distributePassiveIncome 0 ''s1'' 6 active_chain_db"
    by simp
  have "Suc 6 = 7" by simp
  with st have st7: "distributePassiveIncome 0 ''u'' 7 active_chain_db =
       distributePassiveIncome 0 ''s1'' 6 active_chain_db"
    by simp
  from w p tx s d z st7 show ?thesis by simp
qed

subsection \<open>The system fund\<close>





















text \<open>
  How often the wallet is credited. In memory, where wallets are shared by reference, the
  admin's balance after the investment of 1000 is 1200: \<open>createTransaction\<close> credits a
  completed transaction through \<open>updateUserWallet\<close>, and the engine adds the amount to the
  balance once more. In a file the engine's update stores the wallet of the copy it read
  before, with the amount added to the balance: the balance is 600, and the total earnings
  that \<open>updateUserWallet\<close> had raised are back at 0. The sponsor bonus, the depth bonus and
  the passive income are credited in the same way.
\<close>

lemma system_fund_credited_by_both_paths:
  "balanceOf (calculateAndDistributeCommissions 1000 ''u'' inactive_chain_db) ''admin-001'' = 1200
   \<and> map_option (\<lambda>a. totalEarnings (u_wallet a))
        (getUserById (db_users (calculateAndDistributeCommissions 1000 ''u'' inactive_chain_db))
           ''admin-001'') = Some 600
   \<and> balanceOf (calculateAndDistributeCommissions 1000 ''u'' (on_file inactive_chain_db))
        ''admin-001'' = 600
   \<and> map_option (\<lambda>a. totalEarnings (u_wallet a))
        (getUserById
           (db_users (calculateAndDistributeCommissions 1000 ''u'' (on_file inactive_chain_db)))
           ''admin-001'') = Some 0"
  by code_simp

subsection \<open>Applying a commission twice\<close>

lemma payPurchaseSponsor_purchases:
  "db_productPurchases (payPurchaseSponsor purchase db) = db_productPurchases db"
  by (simp add: payPurchaseSponsor_def createProductCommission_def updateUserWallet_def
      credit_def split: option.splits)

text \<open>
  Claim C6 as amended. \<open>processCommissionTransaction\<close> has no guard. Every application
  adds the amount of the transaction, by one double addition each, to the balance, to the
  total earnings and to the accumulator of the transaction's category (\<open>sponsorBonus\<close> for
  the direct sponsor bonus, \<open>careerBonus\<close> for a depth level, \<open>passiveIncome\<close> for
  passive income; none for the company fund), and leaves the rest of the member as it is. Two
  applications of the same transaction add the amount twice. The only guard is the one at the
  start of \<open>distributeProductCommissions\<close>: for a purchase whose \<open>commissionsDistributed\<close>
  flag is set it leaves the database as it is.
\<close>

theorem commission_application:
  "balance (u_wallet (processCommissionTransaction t r)) =
     fadd (balance (u_wallet r)) (t_amount t)
   \<and> totalEarnings (u_wallet (processCommissionTransaction t r)) =
       fadd (totalEarnings (u_wallet r)) (t_amount t)
   \<and> sponsorBonus (u_wallet (processCommissionTransaction t r)) =
       (if t_commissionType t = direct_sponsor
        then fadd (sponsorBonus (u_wallet r)) (t_amount t) else sponsorBonus (u_wallet r))
   \<and> careerBonus (u_wallet (processCommissionTransaction t r)) =
       (if \<exists>n. t_commissionType t = depth_level n
        then fadd (careerBonus (u_wallet r)) (t_amount t) else careerBonus (u_wallet r))
   \<and> passiveIncome (u_wallet (processCommissionTransaction t r)) =
       (if t_commissionType t = passive_income
        then fadd (passiveIncome (u_wallet r)) (t_amount t) else passiveIncome (u_wallet r))
   \<and> leadershipBonus (u_wallet (processCommissionTransaction t r)) =
       leadershipBonus (u_wallet r)
   \<and> processCommissionTransaction t r =
       r\<lparr>u_wallet := u_wallet (processCommissionTransaction t r)\<rparr>
   \<and> balance (u_wallet (processCommissionTransaction t (processCommissionTransaction t r))) =
       fadd (fadd (balance (u_wallet r)) (t_amount t)) (t_amount t)
   \<and> totalEarnings
         (u_wallet (processCommissionTransaction t (processCommissionTransaction t r))) =
       fadd (fadd (totalEarnings (u_wallet r)) (t_amount t)) (t_amount t)
   \<and> (pp_commissionsDistributed purchase \<longrightarrow>
        distributeProductCommissions purchase db = db)"
  by (cases "t_commissionType t")
    (simp_all add: processCommissionTransaction_def distributeProductCommissions_def)

text \<open>
  Counterexample to claim C6 as stated (applying the same transaction twice credits it
  once): a sponsor commission of 3.00 applied twice to a wallet with balance 0 gives the
  balance 6.00, and 6.00 of sponsor bonus.
\<close>

theorem commission_applied_twice:
  "balance (u_wallet (example_user ''s1'' None 20 200 100)) = 0
   \<and> t_amount sponsor_commission = 3
   \<and> balance (u_wallet (processCommissionTransaction sponsor_commission
        (example_user ''s1'' None 20 200 100))) = 3
   \<and> balance (u_wallet (processCommissionTransaction sponsor_commission
        (processCommissionTransaction sponsor_commission
           (example_user ''s1'' None 20 200 100)))) = 6
   \<and> sponsorBonus (u_wallet (processCommissionTransaction sponsor_commission
        (processCommissionTransaction sponsor_commission
           (example_user ''s1'' None 20 200 100)))) = 6"
  by code_simp

text \<open>
  Witness for claim C6. The sponsor commission of 3.00 applied to a member with an empty
  wallet gives the balance, the total earnings and the sponsor bonus 3.00 and leaves the
  career bonus at 0; distributing a purchase whose flag is set changes nothing, in memory
  and in a file.
\<close>

theorem commission_application_witness:
  "balance (u_wallet (processCommissionTransaction sponsor_commission
      (example_user ''s1'' None 20 200 100))) = 3
   \<and> totalEarnings (u_wallet (processCommissionTransaction sponsor_commission
        (example_user ''s1'' None 20 200 100))) = 3
   \<and> sponsorBonus (u_wallet (processCommissionTransaction sponsor_commission
        (example_user ''s1'' None 20 200 100))) = 3
   \<and> careerBonus (u_wallet (processCommissionTransaction sponsor_commission
        (example_user ''s1'' None 20 200 100))) = 0
   \<and> distributeProductCommissions (example_purchase True) purchase_db = purchase_db
   \<and> distributeProductCommissions (example_purchase True) (on_file purchase_db) =
       on_file purchase_db"
proof -
  let ?r = "example_user ''s1'' None 20 200 100"
  have f: "pp_commissionsDistributed (example_purchase True)"
    "t_commissionType sponsor_commission = direct_sponsor"
    "t_amount sponsor_commission = 3"
    "balance (u_wallet ?r) = 0" "totalEarnings (u_wallet ?r) = 0"
    "sponsorBonus (u_wallet ?r) = 0" "careerBonus (u_wallet ?r) = 0"
    "fadd 0 3 = 3"
    by code_simp+
  note m = commission_application [where t = sponsor_commission and r = ?r
      and purchase = "example_purchase True" and db = purchase_db]
  note j = commission_application [where t = sponsor_commission and r = ?r
      and purchase = "example_purchase True" and db = "on_file purchase_db"]
  from m f have 1: "balance (u_wallet (processCommissionTransaction sponsor_commission ?r)) = 3"
    "totalEarnings (u_wallet (processCommissionTransaction sponsor_commission ?r)) = 3"
    "sponsorBonus (u_wallet (processCommissionTransaction sponsor_commission ?r)) = 3"
    "careerBonus (u_wallet (processCommissionTransaction sponsor_commission ?r)) = 0"
    "distributeProductCommissions (example_purchase True) purchase_db = purchase_db"
    by simp_all
  from j f have 2: "distributeProductCommissions (example_purchase True) (on_file purchase_db) =
       on_file purchase_db"
    by simp
  from 1 2 show ?thesis by simp
qed

text \<open>
  What the guard does not cover. The call of the method that does not exist throws before
  the statements that set the flag, so no distribution changes the purchases of the database:
  the flag of a stored purchase is never set by this function. On the example, a second
  distribution of the stored purchase credits the sponsor again.
\<close>

lemma product_commissions_flag_not_set:
  "db_productPurchases (distributeProductCommissions purchase db) = db_productPurchases db"
  by (simp add: distributeProductCommissions_def distributeNetworkCommissions_def Let_def
      payPurchaseSponsor_purchases)

lemma product_commissions_distributed_again:
  "balanceOf (distributeProductCommissions (example_purchase False) purchase_db) ''s1'' = 10
   \<and> storedPurchase (distributeProductCommissions (example_purchase False) purchase_db)
        ''p1'' = Some (example_purchase False)
   \<and> balanceOf
        (distributeProductCommissions (example_purchase False)
           (distributeProductCommissions (example_purchase False) purchase_db))
        ''s1'' = 20"
  by code_simp

end
